theory Spec2Isabelle
  imports Complex_Main "HOL-Library.Option_ord"
begin

section \<open>The measurement table\<close>

text \<open>
  The functions of \<^verbatim>\<open>aggregate.py\<close> are chains of DataFrame operations. A DataFrame is
  modelled as the list of its rows, a nullable column as an \<open>option\<close> (\<open>None\<close> is SQL
  null). The fixed columns \<^verbatim>\<open>cols.sdo_id\<close>, \<^verbatim>\<open>cols.year\<close>, \<^verbatim>\<open>cols.temperature\<close> and
  \<^verbatim>\<open>cols.pivot_temp\<close> are the fields of the record; a column that a function receives by
  name (\<^verbatim>\<open>value_col_name\<close>, \<^verbatim>\<open>area_col_name\<close>) is passed as the function that reads it
  from a row, so the further columns of the table live in the extension of the record.
  Doubles are modelled as reals. The order of the rows of a DataFrame that was not sorted
  is not fixed by the engine; the model produces one order, and the theorems speak about
  the order of a result only where the function sorts it. The final \<^verbatim>\<open>toPandas\<close> copies
  the rows into a local table and is not modelled; pandas shows a null number as NaN.
\<close>

record measurement =
  sdo_id :: "int option"
  year :: "int option"
  temperature :: "real option"
  pivot_temp :: "real option"

subsection \<open>Column aggregates\<close>

text \<open>The aggregates skip nulls, as SQL aggregates do.\<close>

definition non_null :: "'a option list \<Rightarrow> 'a list" where
  "non_null col = concat (map (\<lambda>c. case c of None \<Rightarrow> [] | Some x \<Rightarrow> [x]) col)"

text \<open>\<^verbatim>\<open>mean\<close>: null over no value.\<close>

definition mean_agg :: "real option list \<Rightarrow> real option" where
  "mean_agg col =
     (let xs = non_null col
      in if xs = [] then None else Some (sum_list xs / real (length xs)))"

text \<open>
  \<^verbatim>\<open>stddev\<close> is the sample standard deviation \<^verbatim>\<open>stddev_samp\<close>: the divisor is
  \<open>n - 1\<close>, and the result is null over fewer than two values. (Over a single value,
  versions of the engine before 3.1 give NaN, which is no number either and which pandas
  shows as it shows a null; the docstrings of the functions call both NaN.)
\<close>

definition stddev_agg :: "real option list \<Rightarrow> real option" where
  "stddev_agg col =
     (let xs = non_null col; n = length xs; m = sum_list xs / real n
      in if n < 2 then None
         else Some (sqrt (sum_list (map (\<lambda>x. (x - m)\<^sup>2) xs) / real (n - 1))))"

text \<open>\<^verbatim>\<open>count\<close> of a column counts its non-null entries and is never null itself.\<close>

definition count_agg :: "'a option list \<Rightarrow> int" where
  "count_agg col = int (length (non_null col))"

subsection \<open>Grouping\<close>

text \<open>\<^verbatim>\<open>groupby\<close>: one group for each value of the key column, null included.\<close>

definition groupby :: "('r \<Rightarrow> 'k) \<Rightarrow> 'r list \<Rightarrow> ('k \<times> 'r list) list" where
  "groupby k rows = map (\<lambda>v. (v, filter (\<lambda>r. k r = v) rows)) (remdups (map k rows))"

section \<open>The pivot temperatures\<close>

record pivot_row =
  p_sdo_id :: "int option"
  p_pivot_temp :: "real option"

text \<open>A comparison with a null year is null, and \<^verbatim>\<open>where\<close> drops the row.\<close>

definition year_ge :: "int \<Rightarrow> 'a measurement_scheme \<Rightarrow> bool" where
  "year_ge y r = (case year r of None \<Rightarrow> False | Some z \<Rightarrow> y \<le> z)"

definition year_le :: "int \<Rightarrow> 'a measurement_scheme \<Rightarrow> bool" where
  "year_le y r = (case year r of None \<Rightarrow> False | Some z \<Rightarrow> z \<le> y)"

definition get_pivotal_mean ::
  "'a measurement_scheme list \<Rightarrow> int \<Rightarrow> int \<Rightarrow> pivot_row list" where
  "get_pivotal_mean df start_year end_year =
     map (\<lambda>(s, g). \<lparr>p_sdo_id = s, p_pivot_temp = mean_agg (map temperature g)\<rparr>)
       (groupby sdo_id (filter (year_le end_year) (filter (year_ge start_year) df)))"

text \<open>The rows of a station within the inclusive interval of years.\<close>

definition in_interval :: "int \<Rightarrow> int \<Rightarrow> 'a measurement_scheme \<Rightarrow> bool" where
  "in_interval start_year end_year r =
     (case year r of None \<Rightarrow> False | Some z \<Rightarrow> start_year \<le> z \<and> z \<le> end_year)"

definition station_rows ::
  "'a measurement_scheme list \<Rightarrow> int \<Rightarrow> int \<Rightarrow> int option \<Rightarrow> 'a measurement_scheme list" where
  "station_rows df start_year end_year s =
     filter (\<lambda>r. sdo_id r = s \<and> in_interval start_year end_year r) df"

section \<open>The aggregations\<close>

text \<open>
  A row of a result table: the group key (the column \<^verbatim>\<open>cols.area\<close> or \<^verbatim>\<open>cols.year\<close>) and
  the three aggregates \<^verbatim>\<open>cols.mean\<close>, \<^verbatim>\<open>cols.stddev\<close> and \<^verbatim>\<open>cols.stations\<close>. The count
  is nullable as a column: the outer join leaves it null in the rows it adds, until
  \<^verbatim>\<open>fillna\<close> replaces the null.
\<close>

record 'k agg_row =
  key :: "'k option"
  mean :: "real option"
  stddev :: "real option"
  stations :: "int option"

text \<open>\<^verbatim>\<open>.agg(mean(v), stddev(v), count(v))\<close> on one group.\<close>

definition agg :: "('r \<Rightarrow> real option) \<Rightarrow> 'k option \<times> 'r list \<Rightarrow> 'k agg_row" where
  "agg v = (\<lambda>(k, g).
     \<lparr>key = k, mean = mean_agg (map v g), stddev = stddev_agg (map v g),
      stations = Some (count_agg (map v g))\<rparr>)"

text \<open>
  \<^verbatim>\<open>left.join(right, on = key, how = 'outer')\<close>, where \<open>right\<close> is a table of the key column
  alone. A null key matches nothing. A left row is paired with every right row of its key,
  and stays as it is when there is none; a right row that no left row matches gives a row
  of its key whose other columns are null (\<open>nulls\<close> builds it).
\<close>

definition join_outer ::
  "('a \<Rightarrow> 'k option) \<Rightarrow> ('k option \<Rightarrow> 'a) \<Rightarrow> 'a list \<Rightarrow> 'k option list \<Rightarrow> 'a list" where
  "join_outer k nulls left right =
     concat (map (\<lambda>a. case filter (\<lambda>j. j \<noteq> None \<and> j = k a) right of
                         [] \<Rightarrow> [a]
                       | m # ms \<Rightarrow> map (\<lambda>_. a) (m # ms)) left)
     @ map nulls (filter (\<lambda>j. j = None \<or> j \<notin> k ` set left) right)"

definition null_agg :: "'k option \<Rightarrow> 'k agg_row" where
  "null_agg k = \<lparr>key = k, mean = None, stddev = None, stations = None\<rparr>"

text \<open>\<^verbatim>\<open>.fillna(0, cols.stations)\<close>\<close>

definition fillna_stations :: "'k agg_row \<Rightarrow> 'k agg_row" where
  "fillna_stations r = r\<lparr>stations := Some (case stations r of None \<Rightarrow> 0 | Some n \<Rightarrow> n)\<rparr>"

definition aggregate_spatially ::
  "'a measurement_scheme list \<Rightarrow> int \<Rightarrow> ('a measurement_scheme \<Rightarrow> real option) \<Rightarrow>
   ('a measurement_scheme \<Rightarrow> 'k option) \<Rightarrow> 'k option list \<Rightarrow> 'k agg_row list" where
  "aggregate_spatially sdf y value_col area_col full_area_list =
     map fillna_stations
       (join_outer key null_agg
          (map (agg value_col)
             (groupby area_col
                (filter (\<lambda>r. value_col r \<noteq> None)
                   (filter (\<lambda>r. year r = Some y)
                      (filter (\<lambda>r. area_col r \<noteq> None) sdf)))))
          full_area_list)"

text \<open>
  \<^verbatim>\<open>.sort(cols.year, ascending=True)\<close> puts nulls first, which is the order of
  \<open>int option\<close>.
\<close>

definition aggregate_temporarly ::
  "'a measurement_scheme list \<Rightarrow> ('a measurement_scheme \<Rightarrow> real option) \<Rightarrow> 'k \<Rightarrow>
   ('a measurement_scheme \<Rightarrow> 'k option) \<Rightarrow> int option list \<Rightarrow> int agg_row list" where
  "aggregate_temporarly sdf value_col area area_col sdf_years =
     sort_key key
       (map fillna_stations
          (join_outer key null_agg
             (map (agg value_col)
                (groupby year (filter (\<lambda>r. area_col r = Some area) sdf)))
             sdf_years))"

text \<open>
  The column \<^verbatim>\<open>cols.diff\<close> of \<^verbatim>\<open>withColumn\<close>: the difference is null when the
  temperature or the pivot temperature is.
\<close>

definition diff :: "'a measurement_scheme \<Rightarrow> real option" where
  "diff r = (case temperature r of None \<Rightarrow> None
             | Some t \<Rightarrow> (case pivot_temp r of None \<Rightarrow> None | Some p \<Rightarrow> Some (t - p)))"

definition aggregate_differences ::
  "'a measurement_scheme list \<Rightarrow> 'k \<Rightarrow> ('a measurement_scheme \<Rightarrow> 'k option) \<Rightarrow>
   int option list \<Rightarrow> int agg_row list" where
  "aggregate_differences sdf area area_col sdf_years =
     sort_key key
       (map fillna_stations
          (join_outer key null_agg
             (map (agg diff)
                (groupby year (filter (\<lambda>r. area_col r = Some area) sdf)))
             sdf_years))"

subsection \<open>The running mean\<close>

record run_row =
  r_year :: "int option"
  r_running :: "real option"

text \<open>
  The frame of \<^verbatim>\<open>Window.orderBy(cols.year).rangeBetween(-6, Window.currentRow)\<close>: for a
  current row of year \<open>c\<close> the rows whose year lies between \<open>c - 6\<close> and \<open>c\<close>; a row
  without year has the rows without year as its frame.
\<close>

definition in_window :: "int option \<Rightarrow> int option \<Rightarrow> bool" where
  "in_window cur y =
     (case cur of None \<Rightarrow> y = None
      | Some c \<Rightarrow> (case y of None \<Rightarrow> False | Some z \<Rightarrow> c - 6 \<le> z \<and> z \<le> c))"

text \<open>\<^verbatim>\<open>.withColumn(cols.running, mean(col(value_col_name)).over(window))\<close>\<close>

definition with_running ::
  "('a measurement_scheme \<Rightarrow> real option) \<Rightarrow> 'a measurement_scheme list \<Rightarrow>
   ('a measurement_scheme \<times> real option) list" where
  "with_running value_col rows =
     map (\<lambda>r. (r, mean_agg (map value_col (filter (\<lambda>q. in_window (year r) (year q)) rows)))) rows"

text \<open>\<^verbatim>\<open>drop_duplicates\<close> on a key column keeps one row for each key.\<close>

fun drop_duplicates :: "('a \<Rightarrow> 'k) \<Rightarrow> 'a list \<Rightarrow> 'a list" where
  "drop_duplicates k [] = []"
| "drop_duplicates k (x # xs) = x # drop_duplicates k (filter (\<lambda>y. k y \<noteq> k x) xs)"

definition null_run :: "int option \<Rightarrow> run_row" where
  "null_run k = \<lparr>r_year = k, r_running = None\<rparr>"

definition aggregate_running_mean ::
  "'a measurement_scheme list \<Rightarrow> ('a measurement_scheme \<Rightarrow> real option) \<Rightarrow> 'k \<Rightarrow>
   ('a measurement_scheme \<Rightarrow> 'k option) \<Rightarrow> int option list \<Rightarrow> run_row list" where
  "aggregate_running_mean sdf value_col area area_col sdf_years =
     sort_key r_year
       (join_outer r_year null_run
          (map (\<lambda>(r, m). \<lparr>r_year = year r, r_running = m\<rparr>)
             (drop_duplicates (\<lambda>(r, m). year r)
                (with_running value_col (filter (\<lambda>r. area_col r = Some area) sdf))))
          sdf_years)"

subsection \<open>The running mean as the specification words it\<close>

text \<open>
  The running mean in the words of the specification: the mean of the values of the rows of
  the area whose year lies between \<open>Y - 6\<close> and \<open>Y\<close>.
\<close>

definition range_mean ::
  "'a measurement_scheme list \<Rightarrow> ('a measurement_scheme \<Rightarrow> real option) \<Rightarrow> 'k \<Rightarrow>
   ('a measurement_scheme \<Rightarrow> 'k option) \<Rightarrow> int \<Rightarrow> real option" where
  "range_mean sdf value_col area area_col Y =
     mean_agg (map value_col
       (filter (\<lambda>r. area_col r = Some area \<and> in_interval (Y - 6) Y r) sdf))"

subsection \<open>A table for the examples\<close>

record located = measurement +
  area_name :: "string option"

definition obs :: "int \<Rightarrow> int \<Rightarrow> string \<Rightarrow> real \<Rightarrow> located" where
  "obs s y a t =
     \<lparr>sdo_id = Some s, year = Some y, temperature = Some t, pivot_temp = Some 12,
      area_name = Some a\<rparr>"

definition table_a :: "located list" where
  "table_a = [obs 1 2000 ''A'' 10, obs 2 2000 ''A'' 20, obs 3 2003 ''A'' 14, obs 4 2000 ''B'' 9]"

text \<open>
  Four stations; the reference interval 1961 to 1980 holds no row of station 2, and one
  row of station 4, which has no temperature.
\<close>

definition pivot_example :: "measurement list" where
  "pivot_example =
     [\<lparr>sdo_id = Some 1, year = Some 1961, temperature = Some 8, pivot_temp = None\<rparr>,
      \<lparr>sdo_id = Some 1, year = Some 1962, temperature = Some 10, pivot_temp = None\<rparr>,
      \<lparr>sdo_id = Some 2, year = Some 1990, temperature = Some 9, pivot_temp = None\<rparr>,
      \<lparr>sdo_id = Some 3, year = Some 1975, temperature = Some 7, pivot_temp = None\<rparr>,
      \<lparr>sdo_id = Some 3, year = Some 2001, temperature = Some 11, pivot_temp = None\<rparr>,
      \<lparr>sdo_id = Some 4, year = Some 1970, temperature = None, pivot_temp = None\<rparr>]"

section \<open>The area resolver\<close>

text \<open>
  \<^verbatim>\<open>transform_in_spark.py\<close> works on a parsed GeoJSON, that is on the values a JSON parser
  returns: \<^verbatim>\<open>None\<close>, booleans, numbers, strings, lists and dictionaries with string
  keys. The coordinates of the point are values of this kind too, since nothing in the
  functions checks that they are numbers.
\<close>

datatype json =
  JNull
| JBool bool
| JNum real
| JStr string
| JList "json list"
| JDict "(string \<times> json) list"

datatype exn = IndexError | KeyError | TypeError | ValueError

text \<open>An exception ends the evaluation: the result is the exception.\<close>

definition and_then :: "exn + 'a \<Rightarrow> ('a \<Rightarrow> exn + 'b) \<Rightarrow> exn + 'b" where
  "and_then r f = (case r of Inl e \<Rightarrow> Inl e | Inr x \<Rightarrow> f x)"

text \<open>
  The geometry library is not part of the repository. The functions use three of its
  operations, which are taken as a parameter: the constructors \<^verbatim>\<open>Polygon\<close> and \<^verbatim>\<open>Point\<close>,
  which may raise, and the test \<^verbatim>\<open>contains\<close>.
\<close>

record ('poly, 'pt) shapely =
  Polygon :: "json \<Rightarrow> exn + 'poly"
  Point :: "json \<Rightarrow> json \<Rightarrow> exn + 'pt"
  contains :: "'poly \<Rightarrow> 'pt \<Rightarrow> exn + bool"

text \<open>
  \<^verbatim>\<open>check_in_polygons\<close>: every branch of the body of the loop returns, so the loop looks
  at the first element of the list and at no other. \<^verbatim>\<open>polygon[0]\<close> and \<^verbatim>\<open>polygon[0][0]\<close>
  raise \<^verbatim>\<open>IndexError\<close> on an empty list.
\<close>

function check_in_polygons ::
  "('poly, 'pt) shapely \<Rightarrow> json \<Rightarrow> json \<Rightarrow> json \<Rightarrow> exn + bool" where
  "check_in_polygons sh lon lat polygons =
     (case polygons of
        JList [] \<Rightarrow> Inr False
      | JList (polygon # _) \<Rightarrow>
          (case polygon of
             JList [] \<Rightarrow> Inl IndexError
           | JList (first # _) \<Rightarrow>
               (case first of
                  JList [] \<Rightarrow> Inl IndexError
                | JList (JList _ # _) \<Rightarrow> check_in_polygons sh lon lat polygon
                | JList (_ # _) \<Rightarrow>
                    and_then (Polygon sh polygon) (\<lambda>poly.
                    and_then (Point sh lon lat) (\<lambda>pt. contains sh poly pt))
                | _ \<Rightarrow> Inr False)
           | _ \<Rightarrow> Inr False)
      | _ \<Rightarrow> Inr False)"
  by pat_completeness auto
termination
  by (relation "measure (\<lambda>(sh, lon, lat, polygons). size polygons)") auto

declare check_in_polygons.simps [simp del]

text \<open>\<^verbatim>\<open>obj[key]\<close> for a string key: only a dictionary can be read that way.\<close>

definition getitem :: "json \<Rightarrow> string \<Rightarrow> exn + json" where
  "getitem obj k =
     (case obj of
        JDict kvs \<Rightarrow> (case map_of kvs k of None \<Rightarrow> Inl KeyError | Some v \<Rightarrow> Inr v)
      | _ \<Rightarrow> Inl TypeError)"

text \<open>
  The values a \<^verbatim>\<open>for\<close> loop runs through: the elements of a list, the keys of a
  dictionary, the characters of a string; nothing else can be iterated.
\<close>

definition iterate :: "json \<Rightarrow> exn + json list" where
  "iterate v =
     (case v of
        JList xs \<Rightarrow> Inr xs
      | JDict kvs \<Rightarrow> Inr (map (\<lambda>kv. JStr (fst kv)) kvs)
      | JStr s \<Rightarrow> Inr (map (\<lambda>c. JStr [c]) s)
      | _ \<Rightarrow> Inl TypeError)"

definition nation_dict :: "(string \<times> string) list" where
  "nation_dict = [(''Germany'', ''Deutschland'')]"

text \<open>
  \<^verbatim>\<open>if nation in nation_dict.keys(): nation = nation_dict[nation]\<close>; the membership
  test hashes the value, which raises for a list and for a dictionary.
\<close>

definition translate :: "json \<Rightarrow> exn + json" where
  "translate nation =
     (case nation of
        JList _ \<Rightarrow> Inl TypeError
      | JDict _ \<Rightarrow> Inl TypeError
      | JStr s \<Rightarrow> (case map_of nation_dict s of None \<Rightarrow> Inr nation | Some t \<Rightarrow> Inr (JStr t))
      | _ \<Rightarrow> Inr nation)"

text \<open>
  Modelled from the spec: the constant \<^verbatim>\<open>cols.automated\<close> of the module \<^verbatim>\<open>cols\<close>, which is
  not among the sources; the specification calls it the fixed provenance tag and writes it
  \<^verbatim>\<open>"automated"\<close>.
\<close>

definition automated :: string where
  "automated = ''automated''"

text \<open>
  \<^verbatim>\<open>within_any = check_in_polygons(lon, lat, feature['geometry']['coordinates'])\<close>
\<close>

definition within_any :: "('poly, 'pt) shapely \<Rightarrow> json \<Rightarrow> json \<Rightarrow> json \<Rightarrow> exn + bool" where
  "within_any sh lon lat feature =
     and_then (getitem feature ''geometry'') (\<lambda>geometry.
     and_then (getitem geometry ''coordinates'') (\<lambda>coordinates.
       check_in_polygons sh lon lat coordinates))"

text \<open>The branch of \<^verbatim>\<open>if within_any:\<close>, which returns the names of the feature.\<close>

definition area_names :: "json \<Rightarrow> exn + json \<times> json \<times> json \<times> string" where
  "area_names feature =
     and_then (getitem feature ''properties'') (\<lambda>properties.
     and_then (getitem properties ''NAME_0'') (\<lambda>nation.
     and_then (translate nation) (\<lambda>nation.
     and_then (getitem feature ''properties'') (\<lambda>properties.
     and_then (getitem properties ''NAME_1'') (\<lambda>state.
     and_then (getitem feature ''properties'') (\<lambda>properties.
     and_then (getitem properties ''NAME_3'') (\<lambda>county.
       Inr (nation, state, county, automated))))))))"

text \<open>
  The loop of \<^verbatim>\<open>find_area\<close> over the features; after the last feature the function
  returns the tuple of three \<^verbatim>\<open>None\<close> and the tag.
\<close>

fun find_area_loop ::
  "('poly, 'pt) shapely \<Rightarrow> json \<Rightarrow> json \<Rightarrow> json list \<Rightarrow> exn + json \<times> json \<times> json \<times> string" where
  "find_area_loop sh lon lat [] = Inr (JNull, JNull, JNull, automated)"
| "find_area_loop sh lon lat (feature # features) =
     and_then (within_any sh lon lat feature) (\<lambda>found.
       if found then area_names feature else find_area_loop sh lon lat features)"

definition find_area ::
  "('poly, 'pt) shapely \<Rightarrow> json \<Rightarrow> json \<Rightarrow> json \<Rightarrow> exn + json \<times> json \<times> json \<times> string" where
  "find_area sh lon lat geojson =
     and_then (getitem geojson ''features'') (\<lambda>features.
     and_then (iterate features) (find_area_loop sh lon lat))"

subsection \<open>A model of the geometry library\<close>

text \<open>
  For the examples the three operations are modelled on rings of pairs of numbers. A
  coordinate has to be a number (a boolean counts as 0 or 1); anything else raises. Newer
  versions of the library also convert a string that spells a number, which the model does
  not distinguish; no example below has a string as a coordinate. A ring needs three
  vertices of two or three coordinates. A polygon built from one ring has no holes, and
  it contains a point when the point lies in its interior: not on an edge, and a ray from
  the point crosses the edges an odd number of times.
\<close>

fun coordinate :: "json \<Rightarrow> exn + real" where
  "coordinate (JNum x) = Inr x"
| "coordinate (JBool b) = Inr (if b then 1 else 0)"
| "coordinate _ = Inl TypeError"

fun vertex :: "json \<Rightarrow> exn + real \<times> real" where
  "vertex (JList [x, y]) =
     and_then (coordinate x) (\<lambda>a. and_then (coordinate y) (\<lambda>b. Inr (a, b)))"
| "vertex (JList [x, y, z]) =
     and_then (coordinate x) (\<lambda>a. and_then (coordinate y) (\<lambda>b.
     and_then (coordinate z) (\<lambda>_. Inr (a, b))))"
| "vertex (JList _) = Inl ValueError"
| "vertex _ = Inl TypeError"

fun vertices :: "json list \<Rightarrow> exn + (real \<times> real) list" where
  "vertices [] = Inr []"
| "vertices (v # vs) =
     and_then (vertex v) (\<lambda>p. and_then (vertices vs) (\<lambda>ps. Inr (p # ps)))"

definition model_Polygon :: "json \<Rightarrow> exn + (real \<times> real) list" where
  "model_Polygon shell =
     (case shell of
        JList vs \<Rightarrow> and_then (vertices vs) (\<lambda>ps. if length ps < 3 then Inl ValueError else Inr ps)
      | _ \<Rightarrow> Inl TypeError)"

definition model_Point :: "json \<Rightarrow> json \<Rightarrow> exn + real \<times> real" where
  "model_Point lon lat =
     and_then (coordinate lon) (\<lambda>x. and_then (coordinate lat) (\<lambda>y. Inr (x, y)))"

definition on_edge :: "real \<times> real \<Rightarrow> (real \<times> real) \<times> (real \<times> real) \<Rightarrow> bool" where
  "on_edge p e =
     (case (p, e) of ((px, py), ((ax, ay), (bx, by))) \<Rightarrow>
        (bx - ax) * (py - ay) = (by - ay) * (px - ax) \<and>
        min ax bx \<le> px \<and> px \<le> max ax bx \<and> min ay by \<le> py \<and> py \<le> max ay by)"

definition crosses :: "real \<times> real \<Rightarrow> (real \<times> real) \<times> (real \<times> real) \<Rightarrow> bool" where
  "crosses p e =
     (case (p, e) of ((px, py), ((ax, ay), (bx, by))) \<Rightarrow>
        (py < ay) \<noteq> (py < by) \<and> px < (bx - ax) * (py - ay) / (by - ay) + ax)"

definition edges :: "(real \<times> real) list \<Rightarrow> ((real \<times> real) \<times> (real \<times> real)) list" where
  "edges ring = zip ring (rotate1 ring)"

definition model_contains :: "(real \<times> real) list \<Rightarrow> real \<times> real \<Rightarrow> exn + bool" where
  "model_contains ring p =
     Inr (\<not> list_ex (on_edge p) (edges ring) \<and> odd (length (filter (crosses p) (edges ring))))"

definition shapely_model :: "((real \<times> real) list, real \<times> real) shapely" where
  "shapely_model = \<lparr>Polygon = model_Polygon, Point = model_Point, contains = model_contains\<rparr>"

subsection \<open>The catalog of the examples\<close>

definition ring_of :: "(real \<times> real) list \<Rightarrow> json" where
  "ring_of ps = JList (map (\<lambda>(x, y). JList [JNum x, JNum y]) ps)"

definition square :: json where
  "square = ring_of [(0, 0), (0, 10), (10, 10), (10, 0)]"

definition far_square :: json where
  "far_square = ring_of [(20, 20), (20, 30), (30, 30), (30, 20)]"

definition feature_of :: "json \<Rightarrow> string \<Rightarrow> string \<Rightarrow> string \<Rightarrow> json" where
  "feature_of coordinates nation state county =
     JDict [(''geometry'', JDict [(''coordinates'', coordinates)]),
            (''properties'',
               JDict [(''NAME_0'', JStr nation), (''NAME_1'', JStr state), (''NAME_3'', JStr county)])]"

definition catalog :: json where
  "catalog = JDict [(''features'', JList [feature_of (JList [square]) ''Germany'' ''Bavaria'' ''Munich''])]"

text \<open>A catalog of two features; the first one is the square far from the origin.\<close>

definition two_features :: json where
  "two_features =
     JDict [(''features'',
       JList [feature_of (JList [far_square]) ''France'' ''Bretagne'' ''Brest'',
              feature_of (JList [square]) ''Germany'' ''Bavaria'' ''Munich''])]"

text \<open>
  Malformed catalogs: in the first, the geometries are a number and a list of numbers,
  where lists of rings are expected; in the second, the second feature has a ring with a
  null coordinate.
\<close>

definition flat_features :: json where
  "flat_features =
     JDict [(''features'',
       JList [feature_of (JNum 7) ''France'' ''Bretagne'' ''Brest'',
              feature_of (JList [JNum 0, JNum 10]) ''Germany'' ''Bavaria'' ''Munich''])]"

definition null_ring :: json where
  "null_ring =
     JList [JList [JNum 0, JNum 0], JList [JNum 0, JNull], JList [JNum 10, JNum 10],
            JList [JNum 10, JNum 0]]"

definition odd_features :: json where
  "odd_features =
     JDict [(''features'',
       JList [feature_of (JNum 7) ''France'' ''Bretagne'' ''Brest'',
              feature_of (JList [null_ring]) ''Germany'' ''Bavaria'' ''Munich''])]"

lemmas resolver_eval = find_area_def within_any_def area_names_def getitem_def iterate_def translate_def nation_dict_def
  and_then_def check_in_polygons.simps shapely_model_def model_Polygon_def model_Point_def
  model_contains_def on_edge_def crosses_def edges_def ring_of_def square_def far_square_def
  feature_of_def catalog_def two_features_def
  flat_features_def null_ring_def odd_features_def

section \<open>Facts about grouping\<close>

lemma groupby_keys: "map fst (groupby k rows) = remdups (map k rows)"
  by (simp add: groupby_def comp_def)

lemma groupby_distinct: "distinct (map fst (groupby k rows))"
  by (simp add: groupby_keys)

lemma groupby_group: "(v, g) \<in> set (groupby k rows) \<Longrightarrow> g = filter (\<lambda>r. k r = v) rows"
  by (auto simp: groupby_def)

lemma groupby_mem: "(v, g) \<in> set (groupby k rows) \<Longrightarrow> v \<in> k ` set rows"
  by (auto simp: groupby_def)

lemma groupby_present:
  "v \<in> k ` set rows \<Longrightarrow> (v, filter (\<lambda>r. k r = v) rows) \<in> set (groupby k rows)"
  by (auto simp: groupby_def)

lemma filter_unique_key:
  assumes "distinct (map f xs)" and "x \<in> set xs"
  shows "filter (\<lambda>y. f y = f x) xs = [x]"
  using assms
proof (induction xs)
  case Nil
  then show ?case by simp
next
  case (Cons a xs)
  show ?case
  proof (cases "a = x")
    case True
    have "filter (\<lambda>y. f y = f x) xs = []"
      using Cons.prems(1) True by (auto simp: filter_empty_conv image_iff)
    then show ?thesis using True by simp
  next
    case False
    then have "x \<in> set xs" using Cons.prems(2) by simp
    moreover have "f a \<noteq> f x" using Cons.prems(1) \<open>x \<in> set xs\<close> by (auto simp: image_iff)
    ultimately show ?thesis using Cons by simp
  qed
qed

lemma filter_absent_key: "v \<notin> f ` set xs \<Longrightarrow> filter (\<lambda>y. f y = v) xs = []"
  by (auto simp: filter_empty_conv)

lemma pivot_interval: "(year_le e r \<and> year_ge s r) = in_interval s e r"
  by (auto simp: year_le_def year_ge_def in_interval_def split: option.splits)

lemma pivot_filtered:
  "filter (\<lambda>r. sdo_id r = s) (filter (year_le e) (filter (year_ge b) df)) = station_rows df b e s"
  unfolding station_rows_def filter_filter
  by (rule filter_cong) (auto simp: pivot_interval [symmetric])

section \<open>Facts about the outer join and the aggregates\<close>

lemma join_chunk:
  "(case filter P right of [] \<Rightarrow> [a] | m # ms \<Rightarrow> map (\<lambda>_. a) (m # ms)) =
     replicate (max 1 (length (filter P right))) a"
  by (cases "filter P right") (simp_all add: map_replicate_const)

lemma join_outer_alt:
  "join_outer k nulls left right =
     concat (map (\<lambda>a. replicate (max 1 (length (filter (\<lambda>j. j \<noteq> None \<and> j = k a) right))) a) left)
     @ map nulls (filter (\<lambda>j. j = None \<or> j \<notin> k ` set left) right)"
  unfolding join_outer_def join_chunk ..

lemma set_join_outer:
  "set (join_outer k nulls left right) =
     set left \<union> nulls ` {j \<in> set right. j = None \<or> j \<notin> k ` set left}"
  by (auto simp: join_outer_alt)

lemma filter_chunks:
  "filter (\<lambda>r. k r = w) (concat (map (\<lambda>a. replicate (n a) a) left)) =
     concat (map (\<lambda>a. replicate (n a) a) (filter (\<lambda>a. k a = w) left))"
  by (induction left) simp_all

lemma filter_one: "distinct xs \<Longrightarrow> w \<in> set xs \<Longrightarrow> filter (\<lambda>j. j = w) xs = [w]"
  using filter_unique_key [of "\<lambda>x. x" xs w] by simp

lemma join_outer_rows_for:
  assumes dl: "distinct (map k left)" and dr: "distinct right" and w: "Some v \<in> set right"
    and kn: "\<And>j. k (nulls j) = j"
  shows "filter (\<lambda>r. k r = Some v) (join_outer k nulls left right) =
     (if Some v \<in> k ` set left then filter (\<lambda>a. k a = Some v) left else [nulls (Some v)])"
proof -
  have one: "filter (\<lambda>j. j \<noteq> None \<and> j = Some v) right = [Some v]"
  proof -
    have "filter (\<lambda>j. j \<noteq> None \<and> j = Some v) right = filter (\<lambda>j. j = Some v) right"
      by (rule filter_cong) auto
    then show ?thesis using filter_one [OF dr w] by simp
  qed
  have right_part: "filter (\<lambda>r. k r = Some v) (map nulls (filter (\<lambda>j. j = None \<or> j \<notin> k ` set left) right))
      = (if Some v \<in> k ` set left then [] else [nulls (Some v)])"
  proof -
    have "filter (\<lambda>r. k r = Some v) (map nulls (filter (\<lambda>j. j = None \<or> j \<notin> k ` set left) right))
        = map nulls (filter (\<lambda>j. j = Some v \<and> (j = None \<or> j \<notin> k ` set left)) right)"
      by (simp add: filter_map comp_def kn conj_commute)
    also have "filter (\<lambda>j. j = Some v \<and> (j = None \<or> j \<notin> k ` set left)) right
        = (if Some v \<in> k ` set left then [] else filter (\<lambda>j. j = Some v) right)"
      by (auto intro: filter_cong simp: filter_empty_conv)
    finally show ?thesis using filter_one [OF dr w] by simp
  qed
  have left_part: "filter (\<lambda>r. k r = Some v)
        (concat (map (\<lambda>a. replicate (max 1 (length (filter (\<lambda>j. j \<noteq> None \<and> j = k a) right))) a) left))
      = filter (\<lambda>a. k a = Some v) left"
  proof -
    have "concat (map (\<lambda>a. replicate (max 1 (length (filter (\<lambda>j. j \<noteq> None \<and> j = k a) right))) a)
            (filter (\<lambda>a. k a = Some v) left))
        = concat (map (\<lambda>a. [a]) (filter (\<lambda>a. k a = Some v) left))"
    proof (rule arg_cong [where f = concat], rule map_cong [OF refl])
      fix a assume "a \<in> set (filter (\<lambda>a. k a = Some v) left)"
      then have "k a = Some v" by simp
      then have "length (filter (\<lambda>j. j \<noteq> None \<and> j = k a) right) = 1"
        using one by simp
      then show "replicate (max 1 (length (filter (\<lambda>j. j \<noteq> None \<and> j = k a) right))) a = [a]"
        by (simp only:) simp
    qed
    then show ?thesis by (simp add: filter_chunks)
  qed
  show ?thesis
    unfolding join_outer_alt filter_append left_part right_part
    by (auto simp: filter_empty_conv image_iff)
qed

lemma key_agg: "key (agg v x) = fst x"
  by (simp add: agg_def case_prod_unfold)

lemma key_fillna: "key (fillna_stations r) = key r"
  by (simp add: fillna_stations_def)

lemma key_null_agg: "key (null_agg j) = j"
  by (simp add: null_agg_def)

lemma fillna_agg: "fillna_stations (agg v x) = agg v x"
  by (simp add: fillna_stations_def agg_def case_prod_unfold)

lemma fillna_null_agg: "fillna_stations (null_agg j) = agg v (j, [])"
  by (simp add: fillna_stations_def null_agg_def agg_def mean_agg_def stddev_agg_def
      count_agg_def non_null_def)

lemma agg_keys: "map key (map (agg v) (groupby kf rows)) = remdups (map kf rows)"
  by (simp add: comp_def key_agg groupby_keys [symmetric])

lemma agg_group_rows:
  "filter (\<lambda>a. key a = w) (map (agg v) (groupby kf rows)) =
     (if w \<in> kf ` set rows then [agg v (w, filter (\<lambda>r. kf r = w) rows)] else [])"
proof -
  have flt: "filter (\<lambda>a. key a = w) (map (agg v) (groupby kf rows)) =
      map (agg v) (filter (\<lambda>x. fst x = w) (groupby kf rows))"
    by (simp add: filter_map comp_def key_agg)
  show ?thesis
  proof (cases "w \<in> kf ` set rows")
    case True
    then have mem: "(w, filter (\<lambda>r. kf r = w) rows) \<in> set (groupby kf rows)"
      by (rule groupby_present)
    have "filter (\<lambda>x. fst x = fst (w, filter (\<lambda>r. kf r = w) rows)) (groupby kf rows)
        = [(w, filter (\<lambda>r. kf r = w) rows)]"
      by (rule filter_unique_key [OF groupby_distinct mem])
    then have "filter (\<lambda>x. fst x = w) (groupby kf rows) = [(w, filter (\<lambda>r. kf r = w) rows)]"
      by (simp only: fst_conv)
    then show ?thesis using True by (simp add: flt)
  next
    case False
    then have "w \<notin> fst ` set (groupby kf rows)"
      by (auto dest: groupby_mem)
    then have "filter (\<lambda>x. fst x = w) (groupby kf rows) = []"
      by (rule filter_absent_key)
    then show ?thesis using False by (simp add: flt)
  qed
qed

lemma agg_rows_for:
  assumes dr: "distinct right" and w: "Some w \<in> set right"
  shows "filter (\<lambda>r. key r = Some w)
           (map fillna_stations (join_outer key null_agg (map (agg v) (groupby kf rows)) right)) =
         [agg v (Some w, filter (\<lambda>r. kf r = Some w) rows)]"
proof -
  define left where "left = map (agg v) (groupby kf rows)"
  have dl: "distinct (map key left)"
    unfolding left_def agg_keys by simp
  have "set (map key left) = set (remdups (map kf rows))"
    unfolding left_def agg_keys ..
  then have keys: "key ` set left = kf ` set rows"
    by simp
  have "filter (\<lambda>r. key r = Some w) (map fillna_stations (join_outer key null_agg left right))
      = map fillna_stations (filter (\<lambda>r. key r = Some w) (join_outer key null_agg left right))"
    by (simp add: filter_map comp_def key_fillna)
  also have "filter (\<lambda>r. key r = Some w) (join_outer key null_agg left right) =
      (if Some w \<in> key ` set left then filter (\<lambda>a. key a = Some w) left else [null_agg (Some w)])"
    by (rule join_outer_rows_for [OF dl dr w]) (rule key_null_agg)
  also have "map fillna_stations \<dots> = [agg v (Some w, filter (\<lambda>r. kf r = Some w) rows)]"
  proof (cases "Some w \<in> kf ` set rows")
    case True
    have "filter (\<lambda>a. key a = Some w) left =
        (if Some w \<in> kf ` set rows then [agg v (Some w, filter (\<lambda>r. kf r = Some w) rows)] else [])"
      unfolding left_def by (rule agg_group_rows)
    then show ?thesis using True
      by (simp add: keys fillna_agg)
  next
    case False
    then have "filter (\<lambda>r. kf r = Some w) rows = []"
      by (rule filter_absent_key)
    then show ?thesis using False
      by (simp add: keys fillna_null_agg)
  qed
  finally show ?thesis unfolding left_def .
qed

section \<open>The pivot computation\<close>

lemma mean_agg_single: "mean_agg [t] = t"
  by (cases t) (simp_all add: mean_agg_def non_null_def)

lemma pivot_rows_for:
  "filter (\<lambda>p. p_sdo_id p = s) (get_pivotal_mean df b e) =
     (if station_rows df b e s = [] then []
      else [\<lparr>p_sdo_id = s, p_pivot_temp = mean_agg (map temperature (station_rows df b e s))\<rparr>])"
proof -
  define rows where "rows = filter (year_le e) (filter (year_ge b) df)"
  define mk where "mk = (\<lambda>(s, g :: 'a measurement_scheme list).
     \<lparr>p_sdo_id = s, p_pivot_temp = mean_agg (map temperature g)\<rparr>)"
  have st: "filter (\<lambda>r. sdo_id r = s) rows = station_rows df b e s"
    unfolding rows_def by (rule pivot_filtered)
  have out: "get_pivotal_mean df b e = map mk (groupby sdo_id rows)"
    by (simp add: get_pivotal_mean_def rows_def mk_def)
  have flt: "filter (\<lambda>p. p_sdo_id p = s) (map mk (groupby sdo_id rows))
      = map mk (filter (\<lambda>x. fst x = s) (groupby sdo_id rows))"
    by (simp add: filter_map comp_def case_prod_unfold mk_def)
  show ?thesis
  proof (cases "s \<in> sdo_id ` set rows")
    case True
    then have mem: "(s, filter (\<lambda>r. sdo_id r = s) rows) \<in> set (groupby sdo_id rows)"
      by (rule groupby_present)
    have "filter (\<lambda>x. fst x = fst (s, filter (\<lambda>r. sdo_id r = s) rows)) (groupby sdo_id rows)
        = [(s, filter (\<lambda>r. sdo_id r = s) rows)]"
      by (rule filter_unique_key [OF groupby_distinct mem])
    then have one: "filter (\<lambda>x. fst x = s) (groupby sdo_id rows) = [(s, station_rows df b e s)]"
      by (simp only: fst_conv st)
    have "station_rows df b e s \<noteq> []"
      using True unfolding st [symmetric] by (auto simp: filter_empty_conv)
    then show ?thesis
      unfolding out flt one by (simp add: mk_def)
  next
    case False
    then have "s \<notin> fst ` set (groupby sdo_id rows)"
      by (auto dest: groupby_mem)
    then have none: "filter (\<lambda>x. fst x = s) (groupby sdo_id rows) = []"
      by (rule filter_absent_key)
    have "station_rows df b e s = []"
      using False unfolding st [symmetric] by (auto simp: filter_empty_conv)
    then show ?thesis
      unfolding out flt none by simp
  qed
qed

text \<open>
  C8, as the code has it: \<^verbatim>\<open>get_pivotal_mean\<close> groups the rows within the inclusive
  interval of years by station and gives each station the mean of its temperatures in the
  interval. Nothing filters the rows without a temperature, so a station is in the result
  as soon as it has a row in the interval: a station with no row in the interval is not in
  the result; a station with rows there has exactly one result row, with the mean of its
  non-null temperatures, which is null when all of them are null; a station with exactly
  one row in the interval gets that row's temperature, and a station with exactly one
  non-null temperature in the interval gets that value.
\<close>

theorem get_pivotal_mean_per_station:
  "(station_rows df start_year end_year s = [] \<longrightarrow>
      s \<notin> p_sdo_id ` set (get_pivotal_mean df start_year end_year)) \<and>
   (station_rows df start_year end_year s \<noteq> [] \<longrightarrow>
      filter (\<lambda>p. p_sdo_id p = s) (get_pivotal_mean df start_year end_year) =
        [\<lparr>p_sdo_id = s,
          p_pivot_temp = mean_agg (map temperature (station_rows df start_year end_year s))\<rparr>]) \<and>
   (station_rows df start_year end_year s = [r] \<longrightarrow>
      filter (\<lambda>p. p_sdo_id p = s) (get_pivotal_mean df start_year end_year) =
        [\<lparr>p_sdo_id = s, p_pivot_temp = temperature r\<rparr>]) \<and>
   (non_null (map temperature (station_rows df start_year end_year s)) = [v] \<longrightarrow>
      filter (\<lambda>p. p_sdo_id p = s) (get_pivotal_mean df start_year end_year) =
        [\<lparr>p_sdo_id = s, p_pivot_temp = Some v\<rparr>]) \<and>
   (station_rows df start_year end_year s \<noteq> [] \<and>
    non_null (map temperature (station_rows df start_year end_year s)) = [] \<longrightarrow>
      filter (\<lambda>p. p_sdo_id p = s) (get_pivotal_mean df start_year end_year) =
        [\<lparr>p_sdo_id = s, p_pivot_temp = None\<rparr>])"
proof (intro conjI impI)
  assume "station_rows df start_year end_year s = []"
  then have "filter (\<lambda>p. p_sdo_id p = s) (get_pivotal_mean df start_year end_year) = []"
    by (simp add: pivot_rows_for)
  then show "s \<notin> p_sdo_id ` set (get_pivotal_mean df start_year end_year)"
    by (auto simp: filter_empty_conv)
next
  assume "station_rows df start_year end_year s \<noteq> []"
  then show "filter (\<lambda>p. p_sdo_id p = s) (get_pivotal_mean df start_year end_year) =
        [\<lparr>p_sdo_id = s,
          p_pivot_temp = mean_agg (map temperature (station_rows df start_year end_year s))\<rparr>]"
    by (simp add: pivot_rows_for)
next
  assume "station_rows df start_year end_year s = [r]"
  then show "filter (\<lambda>p. p_sdo_id p = s) (get_pivotal_mean df start_year end_year) =
        [\<lparr>p_sdo_id = s, p_pivot_temp = temperature r\<rparr>]"
    by (simp add: pivot_rows_for mean_agg_single)
next
  assume v: "non_null (map temperature (station_rows df start_year end_year s)) = [v]"
  then have "station_rows df start_year end_year s \<noteq> []"
    by (auto simp: non_null_def)
  then show "filter (\<lambda>p. p_sdo_id p = s) (get_pivotal_mean df start_year end_year) =
        [\<lparr>p_sdo_id = s, p_pivot_temp = Some v\<rparr>]"
    using v by (simp add: pivot_rows_for mean_agg_def)
next
  assume "station_rows df start_year end_year s \<noteq> [] \<and>
    non_null (map temperature (station_rows df start_year end_year s)) = []"
  then show "filter (\<lambda>p. p_sdo_id p = s) (get_pivotal_mean df start_year end_year) =
        [\<lparr>p_sdo_id = s, p_pivot_temp = None\<rparr>]"
    by (simp add: pivot_rows_for mean_agg_def)
qed

theorem get_pivotal_mean_per_station_witness:
  "station_rows pivot_example 1961 1980 (Some 2) = [] \<and>
   Some 2 \<notin> p_sdo_id ` set (get_pivotal_mean pivot_example 1961 1980) \<and>
   station_rows pivot_example 1961 1980 (Some 3) =
     [\<lparr>sdo_id = Some 3, year = Some 1975, temperature = Some 7, pivot_temp = None\<rparr>] \<and>
   filter (\<lambda>p. p_sdo_id p = Some 3) (get_pivotal_mean pivot_example 1961 1980) =
     [\<lparr>p_sdo_id = Some 3, p_pivot_temp = Some 7\<rparr>] \<and>
   station_rows pivot_example 1961 1980 (Some 4) =
     [\<lparr>sdo_id = Some 4, year = Some 1970, temperature = None, pivot_temp = None\<rparr>] \<and>
   filter (\<lambda>p. p_sdo_id p = Some 4) (get_pivotal_mean pivot_example 1961 1980) =
     [\<lparr>p_sdo_id = Some 4, p_pivot_temp = None\<rparr>]"
proof -
  have none: "station_rows pivot_example 1961 1980 (Some 2) = []"
    by (simp add: station_rows_def pivot_example_def in_interval_def)
  have one: "station_rows pivot_example 1961 1980 (Some 3) =
     [\<lparr>sdo_id = Some 3, year = Some 1975, temperature = Some 7, pivot_temp = None\<rparr>]"
    by (simp add: station_rows_def pivot_example_def in_interval_def)
  have nulls: "station_rows pivot_example 1961 1980 (Some 4) =
     [\<lparr>sdo_id = Some 4, year = Some 1970, temperature = None, pivot_temp = None\<rparr>]"
    by (simp add: station_rows_def pivot_example_def in_interval_def)
  show ?thesis
    using none one nulls
      get_pivotal_mean_per_station [of pivot_example 1961 1980 "Some 2" _ 0]
      get_pivotal_mean_per_station [of pivot_example 1961 1980 "Some 3"
        "\<lparr>sdo_id = Some 3, year = Some 1975, temperature = Some 7, pivot_temp = None\<rparr>" 7]
      get_pivotal_mean_per_station [of pivot_example 1961 1980 "Some 4"
        "\<lparr>sdo_id = Some 4, year = Some 1970, temperature = None, pivot_temp = None\<rparr>" 0]
    by (simp add: mean_agg_single non_null_def)
qed

text \<open>
  The claim as stated fails for a station whose rows in the interval have no temperature:
  station 4 has no observed value between 1961 and 1980, and it is in the result, with a
  null pivot temperature.
\<close>

theorem station_without_values_has_null_pivot:
  "non_null (map temperature (station_rows pivot_example 1961 1980 (Some 4))) = [] \<and>
   Some 4 \<in> p_sdo_id ` set (get_pivotal_mean pivot_example 1961 1980) \<and>
   get_pivotal_mean pivot_example 1961 1980 =
     [\<lparr>p_sdo_id = Some 1, p_pivot_temp = Some 9\<rparr>,
      \<lparr>p_sdo_id = Some 3, p_pivot_temp = Some 7\<rparr>,
      \<lparr>p_sdo_id = Some 4, p_pivot_temp = None\<rparr>]"
  by (simp add: get_pivotal_mean_def groupby_def year_le_def year_ge_def pivot_example_def
      station_rows_def in_interval_def mean_agg_def non_null_def)

section \<open>Every key of the full domain has its row\<close>

lemma non_null_empty: "(\<forall>c\<in>set col. c = None) \<Longrightarrow> non_null col = []"
  by (induction col) (simp_all add: non_null_def)

lemma agg_no_value:
  assumes "\<forall>r\<in>set g. v r = None"
  shows "agg v (k, g) = \<lparr>key = k, mean = None, stddev = None, stations = Some 0\<rparr>"
proof -
  have "non_null (map v g) = []"
    using assms by (intro non_null_empty) auto
  then show ?thesis
    by (simp add: agg_def mean_agg_def stddev_agg_def count_agg_def)
qed

lemma sorted_rows_for:
  "filter P xs = [r] \<Longrightarrow> filter P (sort_key f xs) = [r]"
  by (simp add: filter_sort)

text \<open>
  The row of a key of the full domain is the aggregate over the rows of that key, which
  may be none.
\<close>

lemma spatial_rows_for:
  assumes "distinct full_area_list" and "Some a \<in> set full_area_list"
  shows "filter (\<lambda>r. key r = Some a)
           (aggregate_spatially sdf y value_col area_col full_area_list) =
         [agg value_col (Some a,
            filter (\<lambda>r. area_col r = Some a \<and> year r = Some y \<and> value_col r \<noteq> None) sdf)]"
proof -
  have "filter (\<lambda>r. area_col r = Some a)
          (filter (\<lambda>r. value_col r \<noteq> None)
             (filter (\<lambda>r. year r = Some y) (filter (\<lambda>r. area_col r \<noteq> None) sdf))) =
        filter (\<lambda>r. area_col r = Some a \<and> year r = Some y \<and> value_col r \<noteq> None) sdf"
    unfolding filter_filter by (rule filter_cong) auto
  then show ?thesis
    unfolding aggregate_spatially_def agg_rows_for [OF assms] by (simp only:)
qed

lemma temporal_rows_for:
  assumes "distinct sdf_years" and "Some z \<in> set sdf_years"
  shows "filter (\<lambda>r. key r = Some z)
           (aggregate_temporarly sdf value_col area area_col sdf_years) =
         [agg value_col (Some z,
            filter (\<lambda>r. area_col r = Some area \<and> year r = Some z) sdf)]"
proof -
  have "filter (\<lambda>r. year r = Some z) (filter (\<lambda>r. area_col r = Some area) sdf) =
        filter (\<lambda>r. area_col r = Some area \<and> year r = Some z) sdf"
    unfolding filter_filter by (rule filter_cong) auto
  moreover have "filter (\<lambda>r. key r = Some z)
      (aggregate_temporarly sdf value_col area area_col sdf_years) =
      [agg value_col (Some z, filter (\<lambda>r. year r = Some z) (filter (\<lambda>r. area_col r = Some area) sdf))]"
    unfolding aggregate_temporarly_def
    by (rule sorted_rows_for) (rule agg_rows_for [OF assms])
  ultimately show ?thesis by (simp only:)
qed

lemma differences_rows_for:
  assumes "distinct sdf_years" and "Some z \<in> set sdf_years"
  shows "filter (\<lambda>r. key r = Some z)
           (aggregate_differences sdf area area_col sdf_years) =
         [agg diff (Some z,
            filter (\<lambda>r. area_col r = Some area \<and> year r = Some z) sdf)]"
proof -
  have "filter (\<lambda>r. year r = Some z) (filter (\<lambda>r. area_col r = Some area) sdf) =
        filter (\<lambda>r. area_col r = Some area \<and> year r = Some z) sdf"
    unfolding filter_filter by (rule filter_cong) auto
  moreover have "filter (\<lambda>r. key r = Some z)
      (aggregate_differences sdf area area_col sdf_years) =
      [agg diff (Some z, filter (\<lambda>r. year r = Some z) (filter (\<lambda>r. area_col r = Some area) sdf))]"
    unfolding aggregate_differences_def
    by (rule sorted_rows_for) (rule agg_rows_for [OF assms])
  ultimately show ?thesis by (simp only:)
qed

text \<open>
  C1: in the spatial, the temporal and the difference aggregation, a key of the full
  domain (a list without repetition) has exactly one row in the result, and when the
  measurements hold no value for the key, that row has a null mean, a null standard
  deviation and the count 0.
\<close>

theorem one_row_per_domain_key:
  "(distinct full_area_list \<and> Some a \<in> set full_area_list \<longrightarrow>
      (\<exists>r. filter (\<lambda>r. key r = Some a)
             (aggregate_spatially sdf y value_col area_col full_area_list) = [r]) \<and>
      ((\<forall>r\<in>set sdf. area_col r = Some a \<and> year r = Some y \<longrightarrow> value_col r = None) \<longrightarrow>
         filter (\<lambda>r. key r = Some a)
           (aggregate_spatially sdf y value_col area_col full_area_list) =
         [\<lparr>key = Some a, mean = None, stddev = None, stations = Some 0\<rparr>])) \<and>
   (distinct sdf_years \<and> Some z \<in> set sdf_years \<longrightarrow>
      (\<exists>r. filter (\<lambda>r. key r = Some z)
             (aggregate_temporarly sdf value_col area col_of_area sdf_years) = [r]) \<and>
      ((\<forall>r\<in>set sdf. col_of_area r = Some area \<and> year r = Some z \<longrightarrow> value_col r = None) \<longrightarrow>
         filter (\<lambda>r. key r = Some z)
           (aggregate_temporarly sdf value_col area col_of_area sdf_years) =
         [\<lparr>key = Some z, mean = None, stddev = None, stations = Some 0\<rparr>]) \<and>
      (\<exists>r. filter (\<lambda>r. key r = Some z)
             (aggregate_differences sdf area col_of_area sdf_years) = [r]) \<and>
      ((\<forall>r\<in>set sdf. col_of_area r = Some area \<and> year r = Some z \<longrightarrow> diff r = None) \<longrightarrow>
         filter (\<lambda>r. key r = Some z)
           (aggregate_differences sdf area col_of_area sdf_years) =
         [\<lparr>key = Some z, mean = None, stddev = None, stations = Some 0\<rparr>]))"
proof (intro conjI impI; (elim conjE)?)
  assume d: "distinct full_area_list" and m: "Some a \<in> set full_area_list"
  note s = spatial_rows_for [OF d m, of sdf y value_col area_col]
  show "\<exists>r. filter (\<lambda>r. key r = Some a)
             (aggregate_spatially sdf y value_col area_col full_area_list) = [r]"
    using s by blast
  assume "\<forall>r\<in>set sdf. area_col r = Some a \<and> year r = Some y \<longrightarrow> value_col r = None"
  then have "\<forall>r\<in>set (filter (\<lambda>r. area_col r = Some a \<and> year r = Some y \<and> value_col r \<noteq> None) sdf).
      value_col r = None"
    by auto
  then show "filter (\<lambda>r. key r = Some a)
           (aggregate_spatially sdf y value_col area_col full_area_list) =
         [\<lparr>key = Some a, mean = None, stddev = None, stations = Some 0\<rparr>]"
    unfolding s by (simp only: agg_no_value)
next
  assume d: "distinct sdf_years" and m: "Some z \<in> set sdf_years"
  note t = temporal_rows_for [OF d m, of sdf value_col area col_of_area]
  note f = differences_rows_for [OF d m, of sdf area col_of_area]
  show "\<exists>r. filter (\<lambda>r. key r = Some z)
             (aggregate_temporarly sdf value_col area col_of_area sdf_years) = [r]"
    using t by blast
  show "\<exists>r. filter (\<lambda>r. key r = Some z)
             (aggregate_differences sdf area col_of_area sdf_years) = [r]"
    using f by blast
  {
    assume "\<forall>r\<in>set sdf. col_of_area r = Some area \<and> year r = Some z \<longrightarrow> value_col r = None"
    then have "\<forall>r\<in>set (filter (\<lambda>r. col_of_area r = Some area \<and> year r = Some z) sdf).
        value_col r = None"
      by auto
    then show "filter (\<lambda>r. key r = Some z)
           (aggregate_temporarly sdf value_col area col_of_area sdf_years) =
         [\<lparr>key = Some z, mean = None, stddev = None, stations = Some 0\<rparr>]"
      unfolding t by (simp only: agg_no_value)
  }
  {
    assume "\<forall>r\<in>set sdf. col_of_area r = Some area \<and> year r = Some z \<longrightarrow> diff r = None"
    then have "\<forall>r\<in>set (filter (\<lambda>r. col_of_area r = Some area \<and> year r = Some z) sdf).
        diff r = None"
      by auto
    then show "filter (\<lambda>r. key r = Some z)
           (aggregate_differences sdf area col_of_area sdf_years) =
         [\<lparr>key = Some z, mean = None, stddev = None, stations = Some 0\<rparr>]"
      unfolding f by (simp only: agg_no_value)
  }
qed

theorem one_row_per_domain_key_witness:
  "filter (\<lambda>r. key r = Some ''C'')
     (aggregate_spatially table_a 2000 temperature area_name [Some ''A'', Some ''B'', Some ''C'']) =
     [\<lparr>key = Some ''C'', mean = None, stddev = None, stations = Some 0\<rparr>] \<and>
   filter (\<lambda>r. key r = Some 2001)
     (aggregate_temporarly table_a temperature ''A'' area_name [Some 2000, Some 2001]) =
     [\<lparr>key = Some 2001, mean = None, stddev = None, stations = Some 0\<rparr>] \<and>
   filter (\<lambda>r. key r = Some 2001)
     (aggregate_differences table_a ''A'' area_name [Some 2000, Some 2001]) =
     [\<lparr>key = Some 2001, mean = None, stddev = None, stations = Some 0\<rparr>]"
  using one_row_per_domain_key [of "[Some ''A'', Some ''B'', Some ''C'']" "''C''" table_a 2000
      temperature area_name "[Some 2000, Some 2001]" 2001 "''A''" area_name]
  by (simp add: table_a_def obs_def)

section \<open>The standard deviation of fewer than two values\<close>

text \<open>Every row of a result is the aggregate over some group, which may be empty.\<close>

lemma agg_shape:
  assumes "r \<in> set (map fillna_stations (join_outer key null_agg (map (agg v) (groupby kf rows)) right))"
  shows "\<exists>k g. r = agg v (k, g)"
proof -
  from assms obtain a where a: "a \<in> set (join_outer key null_agg (map (agg v) (groupby kf rows)) right)"
    and r: "r = fillna_stations a"
    by auto
  from a have "a \<in> agg v ` set (groupby kf rows) \<or> (\<exists>j. a = null_agg j)"
    unfolding set_join_outer by auto
  then show ?thesis
  proof
    assume "a \<in> agg v ` set (groupby kf rows)"
    then obtain x where "a = agg v x" by auto
    then have "r = agg v (fst x, snd x)" using r by (simp add: fillna_agg)
    then show ?thesis by blast
  next
    assume "\<exists>j. a = null_agg j"
    then obtain j where "a = null_agg j" ..
    then have "r = agg v (j, [])" using r by (simp add: fillna_null_agg)
    then show ?thesis by blast
  qed
qed

lemma spatial_shape:
  "r \<in> set (aggregate_spatially sdf y value_col area_col full_area_list) \<Longrightarrow>
     \<exists>k g. r = agg value_col (k, g)"
  unfolding aggregate_spatially_def by (rule agg_shape)

lemma temporal_shape:
  "r \<in> set (aggregate_temporarly sdf value_col area area_col sdf_years) \<Longrightarrow>
     \<exists>k g. r = agg value_col (k, g)"
  unfolding aggregate_temporarly_def set_sort by (rule agg_shape)

lemma differences_shape:
  fixes sdf :: "'a measurement_scheme list"
  shows "r \<in> set (aggregate_differences sdf area area_col sdf_years) \<Longrightarrow>
     \<exists>k (g :: 'a measurement_scheme list). r = agg diff (k, g)"
  unfolding aggregate_differences_def set_sort by (rule agg_shape)

lemma agg_stddev_null:
  "stations (agg v (k, g)) = Some n \<Longrightarrow> n < 2 \<Longrightarrow> stddev (agg v (k, g)) = None"
  by (auto simp: agg_def stddev_agg_def count_agg_def Let_def)

lemma agg_single_mean:
  "stations (agg v (k, g)) = Some 1 \<Longrightarrow> mean (agg v (k, g)) \<noteq> None"
  by (auto simp: agg_def mean_agg_def count_agg_def Let_def)

lemma agg_stddev_rule:
  assumes "\<exists>k g. r = agg v (k, g)"
  shows "(\<forall>n. stations r = Some n \<and> n < 2 \<longrightarrow> stddev r = None) \<and>
      (stations r = Some 1 \<longrightarrow> mean r \<noteq> None \<and> stddev r = None)"
proof -
  from assms obtain k g where r: "r = agg v (k, g)" by blast
  show ?thesis
    unfolding r using agg_stddev_null [of v k g] agg_single_mean [of v k g] by auto
qed

text \<open>
  C2: in every row of the result of an aggregation that has a standard deviation (the
  spatial, the temporal and the difference aggregation), the standard deviation is null
  whenever the count is below 2, whatever the values are; a row of count 1 has a mean and
  a null standard deviation, never 0.
\<close>

theorem stddev_null_below_two:
  fixes sdf :: "'a measurement_scheme list"
  shows "(\<forall>r\<in>set (aggregate_spatially sdf y value_col area_col full_area_list).
      (\<forall>n. stations r = Some n \<and> n < 2 \<longrightarrow> stddev r = None) \<and>
      (stations r = Some 1 \<longrightarrow> mean r \<noteq> None \<and> stddev r = None)) \<and>
   (\<forall>r\<in>set (aggregate_temporarly sdf value_col area col_of_area sdf_years).
      (\<forall>n. stations r = Some n \<and> n < 2 \<longrightarrow> stddev r = None) \<and>
      (stations r = Some 1 \<longrightarrow> mean r \<noteq> None \<and> stddev r = None)) \<and>
   (\<forall>r\<in>set (aggregate_differences sdf area col_of_area sdf_years).
      (\<forall>n. stations r = Some n \<and> n < 2 \<longrightarrow> stddev r = None) \<and>
      (stations r = Some 1 \<longrightarrow> mean r \<noteq> None \<and> stddev r = None))"
proof (intro conjI)
  show "\<forall>r\<in>set (aggregate_spatially sdf y value_col area_col full_area_list).
      (\<forall>n. stations r = Some n \<and> n < 2 \<longrightarrow> stddev r = None) \<and>
      (stations r = Some 1 \<longrightarrow> mean r \<noteq> None \<and> stddev r = None)"
  proof
    fix r assume "r \<in> set (aggregate_spatially sdf y value_col area_col full_area_list)"
    then have "\<exists>k g. r = agg value_col (k, g)" by (rule spatial_shape)
    then show "(\<forall>n. stations r = Some n \<and> n < 2 \<longrightarrow> stddev r = None) \<and>
      (stations r = Some 1 \<longrightarrow> mean r \<noteq> None \<and> stddev r = None)"
      by (rule agg_stddev_rule)
  qed
  show "\<forall>r\<in>set (aggregate_temporarly sdf value_col area col_of_area sdf_years).
      (\<forall>n. stations r = Some n \<and> n < 2 \<longrightarrow> stddev r = None) \<and>
      (stations r = Some 1 \<longrightarrow> mean r \<noteq> None \<and> stddev r = None)"
  proof
    fix r assume "r \<in> set (aggregate_temporarly sdf value_col area col_of_area sdf_years)"
    then have "\<exists>k g. r = agg value_col (k, g)" by (rule temporal_shape)
    then show "(\<forall>n. stations r = Some n \<and> n < 2 \<longrightarrow> stddev r = None) \<and>
      (stations r = Some 1 \<longrightarrow> mean r \<noteq> None \<and> stddev r = None)"
      by (rule agg_stddev_rule)
  qed
  show "\<forall>r\<in>set (aggregate_differences sdf area col_of_area sdf_years).
      (\<forall>n. stations r = Some n \<and> n < 2 \<longrightarrow> stddev r = None) \<and>
      (stations r = Some 1 \<longrightarrow> mean r \<noteq> None \<and> stddev r = None)"
  proof
    fix r assume "r \<in> set (aggregate_differences sdf area col_of_area sdf_years)"
    then have "\<exists>k (g :: 'a measurement_scheme list). r = agg diff (k, g)"
      by (rule differences_shape)
    then show "(\<forall>n. stations r = Some n \<and> n < 2 \<longrightarrow> stddev r = None) \<and>
      (stations r = Some 1 \<longrightarrow> mean r \<noteq> None \<and> stddev r = None)"
      by (rule agg_stddev_rule)
  qed
qed

lemmas agg_eval = aggregate_temporarly_def aggregate_spatially_def aggregate_differences_def
  aggregate_running_mean_def groupby_def agg_def join_outer_def null_agg_def fillna_stations_def
  mean_agg_def stddev_agg_def count_agg_def non_null_def table_a_def obs_def diff_def
  with_running_def in_window_def null_run_def

theorem stddev_null_below_two_witness:
  "\<lparr>key = Some ''B'', mean = Some 9, stddev = None, stations = Some 1\<rparr>
     \<in> set (aggregate_spatially table_a 2000 temperature area_name [Some ''A'', Some ''B'']) \<and>
   \<lparr>key = Some 2003, mean = Some 14, stddev = None, stations = Some 1\<rparr>
     \<in> set (aggregate_temporarly table_a temperature ''A'' area_name [Some 2000, Some 2003]) \<and>
   \<lparr>key = Some 2003, mean = Some 2, stddev = None, stations = Some 1\<rparr>
     \<in> set (aggregate_differences table_a ''A'' area_name [Some 2000, Some 2003])"
proof -
  have s: "aggregate_spatially table_a 2000 temperature area_name [Some ''A'', Some ''B''] =
      [\<lparr>key = Some ''A'', mean = Some 15, stddev = Some (sqrt 50), stations = Some 2\<rparr>,
       \<lparr>key = Some ''B'', mean = Some 9, stddev = None, stations = Some 1\<rparr>]"
    by (simp add: agg_eval)
  have t: "aggregate_temporarly table_a temperature ''A'' area_name [Some 2000, Some 2003] =
      [\<lparr>key = Some 2000, mean = Some 15, stddev = Some (sqrt 50), stations = Some 2\<rparr>,
       \<lparr>key = Some 2003, mean = Some 14, stddev = None, stations = Some 1\<rparr>]"
    by (simp add: agg_eval)
  have d: "aggregate_differences table_a ''A'' area_name [Some 2000, Some 2003] =
      [\<lparr>key = Some 2000, mean = Some 3, stddev = Some (sqrt 50), stations = Some 2\<rparr>,
       \<lparr>key = Some 2003, mean = Some 2, stddev = None, stations = Some 1\<rparr>]"
    by (simp add: agg_eval)
  show ?thesis
    using stddev_null_below_two [of table_a 2000 temperature area_name "[Some ''A'', Some ''B'']"
      "''A''" area_name "[Some 2000, Some 2003]"]
    by (simp only: s t d list.set insert_iff simp_thms)
qed




subsection \<open>The rows of the running mean\<close>

lemma drop_duplicates_subset: "set (drop_duplicates k xs) \<subseteq> set xs"
  by (induction k xs rule: drop_duplicates.induct) auto

lemma drop_duplicates_keys: "k ` set (drop_duplicates k xs) = k ` set xs"
proof (induction k xs rule: drop_duplicates.induct)
  case (1 k)
  show ?case by simp
next
  case (2 k x xs)
  have "k ` set (x # xs) = insert (k x) (k ` set (filter (\<lambda>y. k y \<noteq> k x) xs))"
    by auto
  then show ?case using 2 by simp
qed

lemma running_left_row:
  assumes "x \<in> set (map (\<lambda>(r, m). \<lparr>r_year = year r, r_running = m\<rparr>)
             (drop_duplicates (\<lambda>(r, m). year r) (with_running v rows)))"
  shows "\<exists>r\<in>set rows. x = \<lparr>r_year = year r,
           r_running = mean_agg (map v (filter (\<lambda>q. in_window (year r) (year q)) rows))\<rparr>"
proof -
  from assms obtain p where p: "p \<in> set (drop_duplicates (\<lambda>(r, m). year r) (with_running v rows))"
    and x: "x = \<lparr>r_year = year (fst p), r_running = snd p\<rparr>"
    by (auto simp: case_prod_unfold)
  from p have "p \<in> set (with_running v rows)"
    by (rule subsetD [OF drop_duplicates_subset])
  then obtain r where "r \<in> set rows"
    and "p = (r, mean_agg (map v (filter (\<lambda>q. in_window (year r) (year q)) rows)))"
    unfolding with_running_def by auto
  then show ?thesis
    using x by auto
qed

lemma running_left_keys:
  "r_year ` set (map (\<lambda>(r, m). \<lparr>r_year = year r, r_running = m\<rparr>)
             (drop_duplicates (\<lambda>(r, m). year r) (with_running v rows))) = year ` set rows"
proof -
  have "r_year ` set (map (\<lambda>(r, m). \<lparr>r_year = year r, r_running = m\<rparr>)
             (drop_duplicates (\<lambda>(r, m). year r) (with_running v rows)))
      = (\<lambda>(r, m). year r) ` set (drop_duplicates (\<lambda>(r, m). year r) (with_running v rows))"
    by (simp add: image_image case_prod_unfold)
  also have "\<dots> = (\<lambda>(r, m). year r) ` set (with_running v rows)"
    by (rule drop_duplicates_keys)
  also have "\<dots> = year ` set rows"
    by (auto simp: with_running_def image_iff)
  finally show ?thesis .
qed

lemma r_year_null_run: "r_year (null_run j) = j"
  by (simp add: null_run_def)

lemma running_rows:
  "set (aggregate_running_mean sdf v area area_col sdf_years) =
     set (map (\<lambda>(r, m). \<lparr>r_year = year r, r_running = m\<rparr>)
             (drop_duplicates (\<lambda>(r, m). year r)
                (with_running v (filter (\<lambda>r. area_col r = Some area) sdf)))) \<union>
     null_run ` {j \<in> set sdf_years. j = None \<or>
        j \<notin> year ` set (filter (\<lambda>r. area_col r = Some area) sdf)}"
  unfolding aggregate_running_mean_def set_sort set_join_outer running_left_keys ..

section \<open>The count after the outer join\<close>

lemma agg_key_set: "key ` set (map (agg v) (groupby kf rows)) = kf ` set rows"
proof -
  have "key ` set (map (agg v) (groupby kf rows)) = set (map key (map (agg v) (groupby kf rows)))"
    by (simp only: set_map)
  also have "\<dots> = set (remdups (map kf rows))"
    unfolding agg_keys ..
  also have "\<dots> = kf ` set rows"
    by simp
  finally show ?thesis .
qed

lemma agg_member:
  assumes w: "Some w \<in> set right"
  shows "agg v (Some w, filter (\<lambda>r. kf r = Some w) rows)
     \<in> set (map fillna_stations (join_outer key null_agg (map (agg v) (groupby kf rows)) right))"
proof (cases "Some w \<in> kf ` set rows")
  case True
  then have "(Some w, filter (\<lambda>r. kf r = Some w) rows) \<in> set (groupby kf rows)"
    by (rule groupby_present)
  then have "agg v (Some w, filter (\<lambda>r. kf r = Some w) rows)
      \<in> set (join_outer key null_agg (map (agg v) (groupby kf rows)) right)"
    unfolding set_join_outer by simp
  then have "fillna_stations (agg v (Some w, filter (\<lambda>r. kf r = Some w) rows))
      \<in> set (map fillna_stations (join_outer key null_agg (map (agg v) (groupby kf rows)) right))"
    by simp
  then show ?thesis by (simp only: fillna_agg)
next
  case False
  have "Some w \<notin> key ` set (map (agg v) (groupby kf rows))"
    using False by (simp only: agg_key_set) simp
  then have "null_agg (Some w) \<in> set (join_outer key null_agg (map (agg v) (groupby kf rows)) right)"
    unfolding set_join_outer using w by blast
  then have "fillna_stations (null_agg (Some w))
      \<in> set (map fillna_stations (join_outer key null_agg (map (agg v) (groupby kf rows)) right))"
    by simp
  moreover have "filter (\<lambda>r. kf r = Some w) rows = []"
    using False by (rule filter_absent_key)
  ultimately show ?thesis by (simp only: fillna_null_agg [of _ v])
qed

lemma agg_member_null:
  assumes "Some w \<in> set right" and "\<forall>r\<in>set rows. kf r = Some w \<longrightarrow> v r = None"
  shows "\<lparr>key = Some w, mean = None, stddev = None, stations = Some 0\<rparr>
     \<in> set (map fillna_stations (join_outer key null_agg (map (agg v) (groupby kf rows)) right))"
proof -
  have "\<forall>r\<in>set (filter (\<lambda>r. kf r = Some w) rows). v r = None"
    using assms(2) by simp
  then have "agg v (Some w, filter (\<lambda>r. kf r = Some w) rows) =
      \<lparr>key = Some w, mean = None, stddev = None, stations = Some 0\<rparr>"
    by (rule agg_no_value)
  then show ?thesis
    using agg_member [OF assms(1), of v kf rows] by simp
qed

lemma agg_count_rule:
  assumes "\<exists>k g. r = agg v (k, g)"
  shows "\<exists>n. stations r = Some n \<and> 0 \<le> n \<and> (n = 0 \<longrightarrow> mean r = None \<and> stddev r = None)"
proof -
  from assms obtain k g where r: "r = agg v (k, g)" by blast
  show ?thesis
    unfolding r by (auto simp: agg_def mean_agg_def stddev_agg_def count_agg_def Let_def)
qed

lemma running_member_null:
  assumes "Some z \<in> set sdf_years" and "\<forall>r\<in>set sdf. area_col r = Some area \<longrightarrow> year r \<noteq> Some z"
  shows "\<lparr>r_year = Some z, r_running = None\<rparr>
     \<in> set (aggregate_running_mean sdf v area area_col sdf_years)"
proof -
  have "Some z \<notin> year ` set (filter (\<lambda>r. area_col r = Some area) sdf)"
    using assms(2) by auto
  then have "null_run (Some z) \<in> null_run ` {j \<in> set sdf_years. j = None \<or>
        j \<notin> year ` set (filter (\<lambda>r. area_col r = Some area) sdf)}"
    using assms(1) by blast
  then show ?thesis
    unfolding running_rows by (simp add: null_run_def)
qed


text \<open>
  C4, as the code has it: in the spatial, the temporal and the difference aggregation the
  count of every row of the result is a number, never null, and a row of count 0 has a
  null mean and a null standard deviation; a key of the full domain for which the
  measurements hold no value has a row of count 0. The running mean has no count: its rows
  hold the year and the running mean, and a year of the full domain without a row of the
  area has a row with a null running mean.
\<close>

theorem count_filled_after_join:
  fixes sdf :: "'a measurement_scheme list"
  shows
  "(\<forall>r\<in>set (aggregate_spatially sdf y value_col area_col full_area_list).
      \<exists>n. stations r = Some n \<and> 0 \<le> n \<and> (n = 0 \<longrightarrow> mean r = None \<and> stddev r = None)) \<and>
   (Some a \<in> set full_area_list \<and>
    (\<forall>r\<in>set sdf. area_col r = Some a \<and> year r = Some y \<longrightarrow> value_col r = None) \<longrightarrow>
      \<lparr>key = Some a, mean = None, stddev = None, stations = Some 0\<rparr>
        \<in> set (aggregate_spatially sdf y value_col area_col full_area_list)) \<and>
   (\<forall>r\<in>set (aggregate_temporarly sdf value_col area col_of_area sdf_years).
      \<exists>n. stations r = Some n \<and> 0 \<le> n \<and> (n = 0 \<longrightarrow> mean r = None \<and> stddev r = None)) \<and>
   (Some z \<in> set sdf_years \<and>
    (\<forall>r\<in>set sdf. col_of_area r = Some area \<and> year r = Some z \<longrightarrow> value_col r = None) \<longrightarrow>
      \<lparr>key = Some z, mean = None, stddev = None, stations = Some 0\<rparr>
        \<in> set (aggregate_temporarly sdf value_col area col_of_area sdf_years)) \<and>
   (\<forall>r\<in>set (aggregate_differences sdf area col_of_area sdf_years).
      \<exists>n. stations r = Some n \<and> 0 \<le> n \<and> (n = 0 \<longrightarrow> mean r = None \<and> stddev r = None)) \<and>
   (Some z \<in> set sdf_years \<and>
    (\<forall>r\<in>set sdf. col_of_area r = Some area \<and> year r = Some z \<longrightarrow> diff r = None) \<longrightarrow>
      \<lparr>key = Some z, mean = None, stddev = None, stations = Some 0\<rparr>
        \<in> set (aggregate_differences sdf area col_of_area sdf_years)) \<and>
   (Some z \<in> set sdf_years \<and>
    (\<forall>r\<in>set sdf. col_of_area r = Some area \<longrightarrow> year r \<noteq> Some z) \<longrightarrow>
      \<lparr>r_year = Some z, r_running = None\<rparr>
        \<in> set (aggregate_running_mean sdf value_col area col_of_area sdf_years))"
proof (intro conjI)
  show "\<forall>r\<in>set (aggregate_spatially sdf y value_col area_col full_area_list).
      \<exists>n. stations r = Some n \<and> 0 \<le> n \<and> (n = 0 \<longrightarrow> mean r = None \<and> stddev r = None)"
  proof
    fix r assume "r \<in> set (aggregate_spatially sdf y value_col area_col full_area_list)"
    then have "\<exists>k g. r = agg value_col (k, g)" by (rule spatial_shape)
    then show "\<exists>n. stations r = Some n \<and> 0 \<le> n \<and> (n = 0 \<longrightarrow> mean r = None \<and> stddev r = None)"
      by (rule agg_count_rule)
  qed
  show "\<forall>r\<in>set (aggregate_temporarly sdf value_col area col_of_area sdf_years).
      \<exists>n. stations r = Some n \<and> 0 \<le> n \<and> (n = 0 \<longrightarrow> mean r = None \<and> stddev r = None)"
  proof
    fix r assume "r \<in> set (aggregate_temporarly sdf value_col area col_of_area sdf_years)"
    then have "\<exists>k g. r = agg value_col (k, g)" by (rule temporal_shape)
    then show "\<exists>n. stations r = Some n \<and> 0 \<le> n \<and> (n = 0 \<longrightarrow> mean r = None \<and> stddev r = None)"
      by (rule agg_count_rule)
  qed
  show "\<forall>r\<in>set (aggregate_differences sdf area col_of_area sdf_years).
      \<exists>n. stations r = Some n \<and> 0 \<le> n \<and> (n = 0 \<longrightarrow> mean r = None \<and> stddev r = None)"
  proof
    fix r assume "r \<in> set (aggregate_differences sdf area col_of_area sdf_years)"
    then have "\<exists>k (g :: 'a measurement_scheme list). r = agg diff (k, g)"
      by (rule differences_shape)
    then show "\<exists>n. stations r = Some n \<and> 0 \<le> n \<and> (n = 0 \<longrightarrow> mean r = None \<and> stddev r = None)"
      by (rule agg_count_rule)
  qed
  show "Some a \<in> set full_area_list \<and>
    (\<forall>r\<in>set sdf. area_col r = Some a \<and> year r = Some y \<longrightarrow> value_col r = None) \<longrightarrow>
      \<lparr>key = Some a, mean = None, stddev = None, stations = Some 0\<rparr>
        \<in> set (aggregate_spatially sdf y value_col area_col full_area_list)"
  proof (intro impI, elim conjE)
    assume m: "Some a \<in> set full_area_list"
      and "\<forall>r\<in>set sdf. area_col r = Some a \<and> year r = Some y \<longrightarrow> value_col r = None"
    then have "\<forall>r\<in>set (filter (\<lambda>r. value_col r \<noteq> None)
                   (filter (\<lambda>r. year r = Some y)
                      (filter (\<lambda>r. area_col r \<noteq> None) sdf))).
        area_col r = Some a \<longrightarrow> value_col r = None"
      by simp
    then show "\<lparr>key = Some a, mean = None, stddev = None, stations = Some 0\<rparr>
        \<in> set (aggregate_spatially sdf y value_col area_col full_area_list)"
      unfolding aggregate_spatially_def by (rule agg_member_null [OF m])
  qed
  show "Some z \<in> set sdf_years \<and>
    (\<forall>r\<in>set sdf. col_of_area r = Some area \<and> year r = Some z \<longrightarrow> value_col r = None) \<longrightarrow>
      \<lparr>key = Some z, mean = None, stddev = None, stations = Some 0\<rparr>
        \<in> set (aggregate_temporarly sdf value_col area col_of_area sdf_years)"
  proof (intro impI, elim conjE)
    assume m: "Some z \<in> set sdf_years"
      and "\<forall>r\<in>set sdf. col_of_area r = Some area \<and> year r = Some z \<longrightarrow> value_col r = None"
    then have "\<forall>r\<in>set (filter (\<lambda>r. col_of_area r = Some area) sdf).
        year r = Some z \<longrightarrow> value_col r = None"
      by simp
    then show "\<lparr>key = Some z, mean = None, stddev = None, stations = Some 0\<rparr>
        \<in> set (aggregate_temporarly sdf value_col area col_of_area sdf_years)"
      unfolding aggregate_temporarly_def set_sort by (rule agg_member_null [OF m])
  qed
  show "Some z \<in> set sdf_years \<and>
    (\<forall>r\<in>set sdf. col_of_area r = Some area \<and> year r = Some z \<longrightarrow> diff r = None) \<longrightarrow>
      \<lparr>key = Some z, mean = None, stddev = None, stations = Some 0\<rparr>
        \<in> set (aggregate_differences sdf area col_of_area sdf_years)"
  proof (intro impI, elim conjE)
    assume m: "Some z \<in> set sdf_years"
      and "\<forall>r\<in>set sdf. col_of_area r = Some area \<and> year r = Some z \<longrightarrow> diff r = None"
    then have "\<forall>r\<in>set (filter (\<lambda>r. col_of_area r = Some area) sdf).
        year r = Some z \<longrightarrow> diff r = None"
      by simp
    then show "\<lparr>key = Some z, mean = None, stddev = None, stations = Some 0\<rparr>
        \<in> set (aggregate_differences sdf area col_of_area sdf_years)"
      unfolding aggregate_differences_def set_sort by (rule agg_member_null [OF m])
  qed
  show "Some z \<in> set sdf_years \<and>
    (\<forall>r\<in>set sdf. col_of_area r = Some area \<longrightarrow> year r \<noteq> Some z) \<longrightarrow>
      \<lparr>r_year = Some z, r_running = None\<rparr>
        \<in> set (aggregate_running_mean sdf value_col area col_of_area sdf_years)"
    using running_member_null [of z sdf_years sdf col_of_area area value_col] by blast
qed

theorem count_filled_after_join_witness:
  "\<lparr>key = Some ''C'', mean = None, stddev = None, stations = Some 0\<rparr>
     \<in> set (aggregate_spatially table_a 2000 temperature area_name [Some ''A'', Some ''C'']) \<and>
   \<lparr>key = Some 2001, mean = None, stddev = None, stations = Some 0\<rparr>
     \<in> set (aggregate_temporarly table_a temperature ''A'' area_name [Some 2000, Some 2001]) \<and>
   \<lparr>key = Some 2001, mean = None, stddev = None, stations = Some 0\<rparr>
     \<in> set (aggregate_differences table_a ''A'' area_name [Some 2000, Some 2001]) \<and>
   \<lparr>r_year = Some 2001, r_running = None\<rparr>
     \<in> set (aggregate_running_mean table_a temperature ''A'' area_name [Some 2000, Some 2001])"
  using count_filled_after_join [of table_a 2000 temperature area_name "[Some ''A'', Some ''C'']"
      "''C''" "''A''" area_name "[Some 2000, Some 2001]" 2001]
  by (simp add: table_a_def obs_def)

text \<open>
  The claim as stated fails for the running mean: for the year 2001 of the full domain,
  which has no measurement, the result has the row of the year and a null running mean,
  and no count that could be 0.
\<close>

theorem running_mean_has_no_count:
  "aggregate_running_mean table_a temperature ''A'' area_name [Some 2000, Some 2001] =
     [\<lparr>r_year = Some 2000, r_running = Some 15\<rparr>,
      \<lparr>r_year = Some 2001, r_running = None\<rparr>,
      \<lparr>r_year = Some 2003, r_running = Some (44 / 3)\<rparr>]"
  by (simp add: agg_eval)

section \<open>The running mean over a range of years\<close>

lemma in_window_interval: "in_window (Some Y) (year q) = in_interval (Y - 6) Y q"
  by (simp add: in_window_def in_interval_def split: option.splits)

lemma running_row_value:
  assumes r: "r \<in> set (aggregate_running_mean sdf v area area_col sdf_years)"
    and y: "r_year r = Some Y"
  shows "r_running r =
     (if Some Y \<in> year ` set (filter (\<lambda>r. area_col r = Some area) sdf)
      then range_mean sdf v area area_col Y else None)"
proof -
  let ?rows = "filter (\<lambda>r. area_col r = Some area) sdf"
  let ?left = "map (\<lambda>(r, m). \<lparr>r_year = year r, r_running = m\<rparr>)
             (drop_duplicates (\<lambda>(r, m). year r) (with_running v ?rows))"
  from r consider (data) "r \<in> set ?left"
    | (fill) "r \<in> null_run ` {j \<in> set sdf_years. j = None \<or> j \<notin> year ` set ?rows}"
    unfolding running_rows by blast
  then show ?thesis
  proof cases
    case data
    then obtain q where q: "q \<in> set ?rows"
      and rq: "r = \<lparr>r_year = year q,
           r_running = mean_agg (map v (filter (\<lambda>p. in_window (year q) (year p)) ?rows))\<rparr>"
      using running_left_row [of r v ?rows] by blast
    from rq y have yq: "year q = Some Y" by simp
    have "filter (\<lambda>p. in_window (year q) (year p)) ?rows =
        filter (\<lambda>r. area_col r = Some area \<and> in_interval (Y - 6) Y r) sdf"
      unfolding filter_filter yq in_window_interval by (rule filter_cong) auto
    then have "r_running r = range_mean sdf v area area_col Y"
      using rq by (simp add: range_mean_def)
    moreover have "Some Y \<in> year ` set ?rows"
      using q yq by (metis imageI)
    ultimately show ?thesis by simp
  next
    case fill
    then obtain j where j: "j = None \<or> j \<notin> year ` set ?rows" and rj: "r = null_run j"
      by blast
    from rj y have "j = Some Y" by (simp add: null_run_def)
    then have "Some Y \<notin> year ` set ?rows" using j by simp
    then show ?thesis using rj by (simp add: null_run_def)
  qed
qed

lemma running_domain_year:
  assumes "Some Y \<in> set sdf_years"
  shows "\<exists>r\<in>set (aggregate_running_mean sdf v area area_col sdf_years). r_year r = Some Y"
proof (cases "Some Y \<in> year ` set (filter (\<lambda>r. area_col r = Some area) sdf)")
  case True
  then have "Some Y \<in> r_year ` set (map (\<lambda>(r, m). \<lparr>r_year = year r, r_running = m\<rparr>)
             (drop_duplicates (\<lambda>(r, m). year r)
                (with_running v (filter (\<lambda>r. area_col r = Some area) sdf))))"
    by (simp only: running_left_keys)
  then show ?thesis
    unfolding running_rows by (metis (no_types, lifting) UnI1 imageE)
next
  case False
  then have "null_run (Some Y) \<in> null_run ` {j \<in> set sdf_years. j = None \<or>
        j \<notin> year ` set (filter (\<lambda>r. area_col r = Some area) sdf)}"
    using assms by blast
  then have "null_run (Some Y) \<in> set (aggregate_running_mean sdf v area area_col sdf_years)"
    unfolding running_rows by simp
  then show ?thesis
    using r_year_null_run by blast
qed


text \<open>
  C3, as the code has it: the window is evaluated on the rows of the data, before the
  join with the full domain. A row of the result for a year \<open>Y\<close> in which the area has a
  row holds the mean of the non-null values of the area whose year lies between \<open>Y - 6\<close>
  and \<open>Y\<close>, a range on the value of the year (null when there is no such value). A row
  for a year in which the area has no row holds a null running mean, also when earlier
  years of its window have values. Every year of the full domain has a row, and a year
  with no row of the area in its window has a row with a null running mean.
\<close>

theorem running_mean_over_year_range:
  "(\<forall>r\<in>set (aggregate_running_mean sdf value_col area area_col sdf_years).
      \<forall>Y. r_year r = Some Y \<longrightarrow>
        r_running r =
          (if Some Y \<in> year ` set (filter (\<lambda>r. area_col r = Some area) sdf)
           then range_mean sdf value_col area area_col Y else None)) \<and>
   (Some Z \<in> set sdf_years \<longrightarrow>
      (\<exists>r\<in>set (aggregate_running_mean sdf value_col area area_col sdf_years).
         r_year r = Some Z)) \<and>
   (Some Z \<in> set sdf_years \<and>
    filter (\<lambda>r. area_col r = Some area \<and> in_interval (Z - 6) Z r) sdf = [] \<longrightarrow>
      \<lparr>r_year = Some Z, r_running = None\<rparr>
        \<in> set (aggregate_running_mean sdf value_col area area_col sdf_years))"
proof (intro conjI ballI allI impI)
  fix r Y
  assume "r \<in> set (aggregate_running_mean sdf value_col area area_col sdf_years)"
    and "r_year r = Some Y"
  then show "r_running r =
          (if Some Y \<in> year ` set (filter (\<lambda>r. area_col r = Some area) sdf)
           then range_mean sdf value_col area area_col Y else None)"
    by (rule running_row_value)
next
  assume "Some Z \<in> set sdf_years"
  then show "\<exists>r\<in>set (aggregate_running_mean sdf value_col area area_col sdf_years).
         r_year r = Some Z"
    by (rule running_domain_year)
next
  assume a: "Some Z \<in> set sdf_years \<and>
    filter (\<lambda>r. area_col r = Some area \<and> in_interval (Z - 6) Z r) sdf = []"
  then have "\<forall>r\<in>set sdf. \<not> (area_col r = Some area \<and> in_interval (Z - 6) Z r)"
    by (simp add: filter_empty_conv)
  then have "\<forall>r\<in>set sdf. area_col r = Some area \<longrightarrow> year r \<noteq> Some Z"
    by (auto simp: in_interval_def)
  with a show "\<lparr>r_year = Some Z, r_running = None\<rparr>
        \<in> set (aggregate_running_mean sdf value_col area area_col sdf_years)"
    by (intro running_member_null) simp_all
qed

theorem running_mean_over_year_range_witness:
  "\<lparr>r_year = Some 2003, r_running = Some (44 / 3)\<rparr>
     \<in> set (aggregate_running_mean table_a temperature ''A'' area_name [Some 2003, Some 2010]) \<and>
   Some 2003 \<in> year ` set (filter (\<lambda>r. area_name r = Some ''A'') table_a) \<and>
   range_mean table_a temperature ''A'' area_name 2003 = Some (44 / 3) \<and>
   filter (\<lambda>r. area_name r = Some ''A'' \<and> in_interval (2010 - 6) 2010 r) table_a = [] \<and>
   \<lparr>r_year = Some 2010, r_running = None\<rparr>
     \<in> set (aggregate_running_mean table_a temperature ''A'' area_name [Some 2003, Some 2010])"
proof -
  have out: "aggregate_running_mean table_a temperature ''A'' area_name [Some 2003, Some 2010] =
     [\<lparr>r_year = Some 2000, r_running = Some 15\<rparr>,
      \<lparr>r_year = Some 2003, r_running = Some (44 / 3)\<rparr>,
      \<lparr>r_year = Some 2010, r_running = None\<rparr>]"
    by (simp add: agg_eval)
  have rows: "Some 2003 \<in> year ` set (filter (\<lambda>r. area_name r = Some ''A'') table_a)"
    by (simp add: table_a_def obs_def)
  have none: "filter (\<lambda>r. area_name r = Some ''A'' \<and> in_interval (2010 - 6) 2010 r) table_a = []"
    by (simp add: table_a_def obs_def in_interval_def)
  have m: "range_mean table_a temperature ''A'' area_name 2003 = Some (44 / 3)"
    by (simp add: range_mean_def table_a_def obs_def in_interval_def mean_agg_def non_null_def)
  show ?thesis
    using running_mean_over_year_range [of table_a temperature "''A''" area_name
        "[Some 2003, Some 2010]" 2010] rows none m
    unfolding out by simp
qed

text \<open>
  The claim as stated fails at a year of the full domain in which the area has no row
  while its window has values: the years 1995 to 2001 hold the values 10 and 20 of the
  year 2000, whose mean is 15, and the row of 2001 has a null running mean.
\<close>

theorem running_mean_gap_year_is_null:
  "\<lparr>r_year = Some 2001, r_running = None\<rparr>
     \<in> set (aggregate_running_mean table_a temperature ''A'' area_name [Some 2000, Some 2001]) \<and>
   range_mean table_a temperature ''A'' area_name 2001 = Some 15"
  by (simp add: agg_eval range_mean_def in_interval_def)

section \<open>The difference to the pivot temperature\<close>

lemma agg_row_of_key:
  assumes r: "r \<in> set (map fillna_stations
              (join_outer key null_agg (map (agg v) (groupby kf rows)) right))"
    and k: "key r = Some w"
  shows "r = agg v (Some w, filter (\<lambda>r. kf r = Some w) rows)"
proof -
  from r obtain a where a: "a \<in> set (join_outer key null_agg (map (agg v) (groupby kf rows)) right)"
    and ra: "r = fillna_stations a"
    by auto
  from a consider (data) "a \<in> set (map (agg v) (groupby kf rows))"
    | (fill) "a \<in> null_agg ` {j \<in> set right. j = None \<or>
         j \<notin> key ` set (map (agg v) (groupby kf rows))}"
    unfolding set_join_outer by blast
  then show ?thesis
  proof cases
    case data
    then obtain x where x: "x \<in> set (groupby kf rows)" and ax: "a = agg v x"
      by auto
    have "fst x = Some w"
      using k ra ax by (simp add: key_fillna key_agg)
    moreover have "snd x = filter (\<lambda>r. kf r = fst x) rows"
      using x groupby_group [of "fst x" "snd x" kf rows] by simp
    ultimately have "x = (Some w, filter (\<lambda>r. kf r = Some w) rows)"
      by (metis prod.collapse)
    then show ?thesis using ra ax by (simp add: fillna_agg)
  next
    case fill
    then obtain j where j: "j = None \<or> j \<notin> key ` set (map (agg v) (groupby kf rows))"
      and aj: "a = null_agg j"
      by blast
    have jw: "j = Some w"
      using k ra aj by (simp add: key_fillna key_null_agg)
    then have "Some w \<notin> kf ` set rows"
      using j by (simp only: agg_key_set) simp
    then have "filter (\<lambda>r. kf r = Some w) rows = []"
      by (rule filter_absent_key)
    then show ?thesis
      using ra aj jw by (simp add: fillna_null_agg [of _ v])
  qed
qed

lemma agg_join_keys:
  "key ` set (map fillna_stations (join_outer key null_agg (map (agg v) (groupby kf rows)) right)) =
     kf ` set rows \<union> set right"
proof -
  have "key ` set (map fillna_stations (join_outer key null_agg (map (agg v) (groupby kf rows)) right))
      = key ` set (join_outer key null_agg (map (agg v) (groupby kf rows)) right)"
    by (simp add: image_image key_fillna)
  also have "\<dots> = key ` set (map (agg v) (groupby kf rows)) \<union>
      key ` null_agg ` {j \<in> set right. j = None \<or> j \<notin> key ` set (map (agg v) (groupby kf rows))}"
    unfolding set_join_outer by (rule image_Un)
  also have "\<dots> = kf ` set rows \<union> {j \<in> set right. j = None \<or> j \<notin> kf ` set rows}"
    unfolding agg_key_set by (simp add: image_image key_null_agg)
  also have "\<dots> = kf ` set rows \<union> set right"
    by auto
  finally show ?thesis .
qed


text \<open>
  C9: the difference aggregation keeps the rows of the area, takes for each row the
  difference of the temperature and the row's pivot temperature (null when either is
  null), and gives for each year the mean, the standard deviation and the count of the
  differences of that year. The keys of the result are the years of the rows of the area
  together with the years of the full domain, and the rows are sorted by year, ascending.
\<close>

theorem aggregate_differences_by_year:
  fixes sdf :: "'a measurement_scheme list"
  shows
  "sorted (map key (aggregate_differences sdf area area_col sdf_years)) \<and>
   key ` set (aggregate_differences sdf area area_col sdf_years) =
     year ` set (filter (\<lambda>r. area_col r = Some area) sdf) \<union> set sdf_years \<and>
   (\<forall>r\<in>set (aggregate_differences sdf area area_col sdf_years). \<forall>z. key r = Some z \<longrightarrow>
      mean r = mean_agg (map diff (filter (\<lambda>q. area_col q = Some area \<and> year q = Some z) sdf)) \<and>
      stddev r = stddev_agg (map diff (filter (\<lambda>q. area_col q = Some area \<and> year q = Some z) sdf)) \<and>
      stations r =
        Some (count_agg (map diff (filter (\<lambda>q. area_col q = Some area \<and> year q = Some z) sdf)))) \<and>
   (\<forall>q :: 'a measurement_scheme.
      diff q = (case (temperature q, pivot_temp q) of
                  (Some t, Some p) \<Rightarrow> Some (t - p) | _ \<Rightarrow> None))"
proof (intro conjI ballI allI impI)
  show "sorted (map key (aggregate_differences sdf area area_col sdf_years))"
    unfolding aggregate_differences_def by (rule sorted_sort_key)
  show "key ` set (aggregate_differences sdf area area_col sdf_years) =
     year ` set (filter (\<lambda>r. area_col r = Some area) sdf) \<union> set sdf_years"
    unfolding aggregate_differences_def set_sort by (rule agg_join_keys)
  show "diff q = (case (temperature q, pivot_temp q) of
                  (Some t, Some p) \<Rightarrow> Some (t - p) | _ \<Rightarrow> None)" for q :: "'a measurement_scheme"
    by (simp add: diff_def split: option.splits)
next
  fix r z
  assume m: "r \<in> set (aggregate_differences sdf area area_col sdf_years)" and k: "key r = Some z"
  from m have "r \<in> set (map fillna_stations
              (join_outer key null_agg
                 (map (agg diff) (groupby year (filter (\<lambda>r. area_col r = Some area) sdf)))
                 sdf_years))"
    unfolding aggregate_differences_def set_sort .
  then have "r = agg diff (Some z,
      filter (\<lambda>r. year r = Some z) (filter (\<lambda>r. area_col r = Some area) sdf))"
    using k by (rule agg_row_of_key)
  moreover have "filter (\<lambda>r. year r = Some z) (filter (\<lambda>r. area_col r = Some area) sdf) =
      filter (\<lambda>q. area_col q = Some area \<and> year q = Some z) sdf"
    unfolding filter_filter by (rule filter_cong) auto
  ultimately have r: "r = agg diff (Some z,
      filter (\<lambda>q. area_col q = Some area \<and> year q = Some z) sdf)"
    by (simp only:)
  show "mean r = mean_agg (map diff (filter (\<lambda>q. area_col q = Some area \<and> year q = Some z) sdf))"
    by (subst r) (simp add: agg_def)
  show "stddev r = stddev_agg (map diff (filter (\<lambda>q. area_col q = Some area \<and> year q = Some z) sdf))"
    by (subst r) (simp add: agg_def)
  show "stations r =
        Some (count_agg (map diff (filter (\<lambda>q. area_col q = Some area \<and> year q = Some z) sdf)))"
    by (subst r) (simp add: agg_def)
qed

theorem aggregate_differences_by_year_witness:
  "aggregate_differences table_a ''A'' area_name [Some 2000, Some 2001] =
     [\<lparr>key = Some 2000, mean = Some 3, stddev = Some (sqrt 50), stations = Some 2\<rparr>,
      \<lparr>key = Some 2001, mean = None, stddev = None, stations = Some 0\<rparr>,
      \<lparr>key = Some 2003, mean = Some 2, stddev = None, stations = Some 1\<rparr>] \<and>
   sorted [Some 2000, Some 2001, Some (2003 :: int)] \<and>
   mean_agg (map diff (filter (\<lambda>q. area_name q = Some ''A'' \<and> year q = Some 2000) table_a)) =
     Some 3 \<and>
   count_agg (map diff (filter (\<lambda>q. area_name q = Some ''A'' \<and> year q = Some 2000) table_a)) = 2"
proof -
  have out: "aggregate_differences table_a ''A'' area_name [Some 2000, Some 2001] =
     [\<lparr>key = Some 2000, mean = Some 3, stddev = Some (sqrt 50), stations = Some 2\<rparr>,
      \<lparr>key = Some 2001, mean = None, stddev = None, stations = Some 0\<rparr>,
      \<lparr>key = Some 2003, mean = Some 2, stddev = None, stations = Some 1\<rparr>]"
    by (simp add: agg_eval)
  show ?thesis
    using aggregate_differences_by_year [of table_a "''A''" area_name "[Some 2000, Some 2001]"]
    unfolding out by simp
qed

section \<open>The containment test looks at the first ring\<close>

subsection \<open>Unfolding the test\<close>

lemma check_first_only:
  "check_in_polygons sh lon lat (JList (polygon # rest)) =
     check_in_polygons sh lon lat (JList [polygon])"
  by (subst (1 2) check_in_polygons.simps) simp

lemma check_ring:
  "check_in_polygons sh lon lat (JList (JList (JList (JNum x # cs) # vs) # rest)) =
     and_then (Polygon sh (JList (JList (JNum x # cs) # vs))) (\<lambda>poly.
     and_then (Point sh lon lat) (\<lambda>pt. contains sh poly pt))"
  by (subst check_in_polygons.simps) simp

lemma check_descend:
  "check_in_polygons sh lon lat (JList (JList (JList (JList l # cs) # vs) # rest)) =
     check_in_polygons sh lon lat (JList (JList (JList l # cs) # vs))"
  by (subst check_in_polygons.simps) simp

text \<open>
  C5: the containment test looks at the first element of a list and at no other: the
  result for a list is the result for the list of its first element alone. Where the
  first element is a ring of coordinate pairs, the result is the containment in the polygon
  of that ring; where it is a polygon of a multi-polygon, the result is the containment in
  the first ring of that polygon. With the two disjoint squares of the examples, the point
  (25, 25) lies in the second square and not in the first, and the test returns false
  for the list of both rings and for the multi-polygon of both.
\<close>

theorem check_in_polygons_first_ring_only:
  "check_in_polygons sh lon lat (JList (polygon # rest)) =
     check_in_polygons sh lon lat (JList [polygon]) \<and>
   check_in_polygons sh lon lat (JList (JList (JList (JNum x # cs) # vs) # rest)) =
     and_then (Polygon sh (JList (JList (JNum x # cs) # vs))) (\<lambda>poly.
     and_then (Point sh lon lat) (\<lambda>pt. contains sh poly pt)) \<and>
   check_in_polygons sh lon lat
       (JList (JList (JList (JList (JNum x # cs) # vs) # holes) # rest)) =
     and_then (Polygon sh (JList (JList (JNum x # cs) # vs))) (\<lambda>poly.
     and_then (Point sh lon lat) (\<lambda>pt. contains sh poly pt)) \<and>
   check_in_polygons shapely_model (JNum 25) (JNum 25) (JList [far_square]) = Inr True \<and>
   check_in_polygons shapely_model (JNum 25) (JNum 25) (JList [square]) = Inr False \<and>
   check_in_polygons shapely_model (JNum 25) (JNum 25) (JList [square, far_square]) = Inr False \<and>
   check_in_polygons shapely_model (JNum 25) (JNum 25)
     (JList [JList [square], JList [far_square]]) = Inr False"
proof (intro conjI)
  show "check_in_polygons sh lon lat (JList (polygon # rest)) =
     check_in_polygons sh lon lat (JList [polygon])"
    by (rule check_first_only)
  show "check_in_polygons sh lon lat (JList (JList (JList (JNum x # cs) # vs) # rest)) =
     and_then (Polygon sh (JList (JList (JNum x # cs) # vs))) (\<lambda>poly.
     and_then (Point sh lon lat) (\<lambda>pt. contains sh poly pt))"
    by (rule check_ring)
  show "check_in_polygons sh lon lat
       (JList (JList (JList (JList (JNum x # cs) # vs) # holes) # rest)) =
     and_then (Polygon sh (JList (JList (JNum x # cs) # vs))) (\<lambda>poly.
     and_then (Point sh lon lat) (\<lambda>pt. contains sh poly pt))"
    by (simp only: check_descend check_ring)
  show "check_in_polygons shapely_model (JNum 25) (JNum 25) (JList [far_square]) = Inr True"
    by (simp add: resolver_eval)
  show "check_in_polygons shapely_model (JNum 25) (JNum 25) (JList [square]) = Inr False"
    by (simp add: resolver_eval)
  show "check_in_polygons shapely_model (JNum 25) (JNum 25) (JList [square, far_square]) = Inr False"
    by (simp add: resolver_eval)
  show "check_in_polygons shapely_model (JNum 25) (JNum 25)
     (JList [JList [square], JList [far_square]]) = Inr False"
    by (simp add: resolver_eval)
qed

section \<open>The containment test terminates\<close>

lemma check_call_descends:
  assumes "check_in_polygons_rel (sh', lon', lat', q) (sh, lon, lat, polygons)"
  shows "(\<exists>rest. polygons = JList (q # rest)) \<and> size q < size polygons"
  using assms by (cases rule: check_in_polygons_rel.cases) auto

lemma check_rel_measure:
  "check_in_polygons_rel a b \<Longrightarrow> size (snd (snd (snd a))) < size (snd (snd (snd b)))"
  by (cases a, cases b) (auto dest: check_call_descends)

text \<open>
  C10, as the code has it: every argument of the containment test is in the domain of the
  recursion, that is, the chain of recursive calls that starts at it ends. The relation
  between a recursive call and the call that makes it is well-founded: a recursive call is
  on the first element of the list of the calling one, a structurally smaller value, with
  the same point. So the evaluation ends after finitely many calls on every finite
  geometry, with a boolean or with an exception.
\<close>

theorem check_in_polygons_terminates:
  fixes sh :: "('poly, 'pt) shapely"
  shows
  "check_in_polygons_dom (sh, lon, lat, polygons) \<and>
   wfP (check_in_polygons_rel ::
     ('poly, 'pt) shapely \<times> json \<times> json \<times> json \<Rightarrow>
     ('poly, 'pt) shapely \<times> json \<times> json \<times> json \<Rightarrow> bool) \<and>
   (\<forall>sh' lon' lat' q.
      check_in_polygons_rel (sh', lon', lat', q) (sh, lon, lat, polygons) \<longrightarrow>
        (\<exists>rest. polygons = JList (q # rest)) \<and> size q < size polygons \<and>
        sh' = sh \<and> lon' = lon \<and> lat' = lat)"
proof (intro conjI allI impI)
  show wf: "wfP (check_in_polygons_rel ::
     ('poly, 'pt) shapely \<times> json \<times> json \<times> json \<Rightarrow>
     ('poly, 'pt) shapely \<times> json \<times> json \<times> json \<Rightarrow> bool)"
    by (rule wfp_if_convertible_to_nat [of _ "\<lambda>a. size (snd (snd (snd a)))"])
      (rule check_rel_measure)
  show "check_in_polygons_dom (sh, lon, lat, polygons)"
    using wf by (rule accp_wfpD)
next
  fix sh' :: "('poly, 'pt) shapely" and lon' lat' q
  assume r: "check_in_polygons_rel (sh', lon', lat', q) (sh, lon, lat, polygons)"
  then show "\<exists>rest. polygons = JList (q # rest)" and "size q < size polygons"
    using check_call_descends by blast+
  from r show "sh' = sh" and "lon' = lon" and "lat' = lat"
    by (cases rule: check_in_polygons_rel.cases; simp)+
qed

theorem check_in_polygons_terminates_witness:
  "check_in_polygons_rel (shapely_model, JNum 5, JNum 5, JList [square])
     (shapely_model, JNum 5, JNum 5, JList [JList [square], JList [far_square]]) \<and>
   size (JList [square]) < size (JList [JList [square], JList [far_square]]) \<and>
   check_in_polygons_dom (shapely_model, JNum 5, JNum 5, JList [JList [square], JList [far_square]])"
proof -
  have "check_in_polygons_rel (shapely_model, JNum 5, JNum 5, JList [square])
     (shapely_model, JNum 5, JNum 5, JList [JList [square], JList [far_square]])"
    by (rule check_in_polygons_rel.intros) (simp_all add: square_def ring_of_def)
  then show ?thesis
    using check_in_polygons_terminates [of shapely_model "JNum 5" "JNum 5"
        "JList [JList [square], JList [far_square]]"]
    by blast
qed

text \<open>
  The claim as stated fails where the test raises instead of returning a boolean: on the
  geometry \<^verbatim>\<open>[[[]]]\<close> the expression \<^verbatim>\<open>polygon[0][0]\<close> reads the first element of an empty
  list, and for a ring with a null coordinate the geometry library raises.
\<close>

theorem check_in_polygons_raises_on_empty_ring:
  "check_in_polygons shapely_model (JNum 5) (JNum 5) (JList [JList [JList []]]) = Inl IndexError \<and>
   check_in_polygons shapely_model (JNum 5) (JNum 5) (JList [null_ring]) = Inl TypeError"
  by (simp add: resolver_eval)

section \<open>The area lookup\<close>

lemma loop_skip:
  "\<forall>g\<in>set pre. within_any sh lon lat g = Inr False \<Longrightarrow>
     find_area_loop sh lon lat (pre @ rest) = find_area_loop sh lon lat rest"
  by (induction pre) (simp_all add: and_then_def)

lemma loop_hit:
  "within_any sh lon lat f = Inr True \<Longrightarrow> find_area_loop sh lon lat (f # post) = area_names f"
  by (simp add: and_then_def)

lemma loop_raise:
  "within_any sh lon lat f = Inl e \<Longrightarrow> find_area_loop sh lon lat (f # post) = Inl e"
  by (simp add: and_then_def)

lemma loop_none:
  "\<forall>g\<in>set fs. within_any sh lon lat g = Inr False \<Longrightarrow>
     find_area_loop sh lon lat fs = Inr (JNull, JNull, JNull, automated)"
  using loop_skip [of fs sh lon lat "[]"] by simp

lemma find_area_features:
  "getitem geojson ''features'' = Inr fl \<Longrightarrow> iterate fl = Inr fs \<Longrightarrow>
     find_area sh lon lat geojson = find_area_loop sh lon lat fs"
  by (simp add: find_area_def and_then_def)

lemma find_area_first_match:
  assumes "getitem geojson ''features'' = Inr fl" and "iterate fl = Inr (pre @ f # post)"
    and "\<forall>g\<in>set pre. within_any sh lon lat g = Inr False"
    and "within_any sh lon lat f = Inr True"
  shows "find_area sh lon lat geojson = area_names f"
  using assms by (simp add: find_area_features loop_skip and_then_def)

lemma find_area_no_match:
  assumes "getitem geojson ''features'' = Inr fl" and "iterate fl = Inr fs"
    and "\<forall>g\<in>set fs. within_any sh lon lat g = Inr False"
  shows "find_area sh lon lat geojson = Inr (JNull, JNull, JNull, automated)"
  using assms by (simp add: find_area_features loop_none)

lemma find_area_raise:
  assumes "getitem geojson ''features'' = Inr fl" and "iterate fl = Inr (pre @ f # post)"
    and "\<forall>g\<in>set pre. within_any sh lon lat g = Inr False"
    and "within_any sh lon lat f = Inl e"
  shows "find_area sh lon lat geojson = Inl e"
  using assms by (simp add: find_area_features loop_skip and_then_def)

lemma area_names_translated:
  assumes "getitem f ''properties'' = Inr props" and "getitem props ''NAME_0'' = Inr (JStr n)"
    and "getitem props ''NAME_1'' = Inr state" and "getitem props ''NAME_3'' = Inr county"
  shows "area_names f =
     Inr (JStr (case map_of nation_dict n of None \<Rightarrow> n | Some t \<Rightarrow> t), state, county, automated)"
  using assms by (simp add: area_names_def and_then_def translate_def split: option.splits)

text \<open>
  C7: the lookup goes through the features in the order of the catalog. When the
  features before a feature do not contain the point and that feature does, the result is
  the tuple of the names of that feature: its nation, replaced by its translation when
  the table of translations has one, its state and its county as they are, and the tag.
  When no feature contains the point the result is three nulls and the tag. In the catalog
  of the one square of Germany, Bavaria, Munich, whose geometry is the list of the one
  ring, the point (5, 5) gives Deutschland, Bavaria, Munich and the point (50, 50) gives the
  nulls.
\<close>

theorem find_area_first_containing_feature:
  "(getitem geojson ''features'' = Inr fl \<and> iterate fl = Inr (pre @ f # post) \<and>
    (\<forall>g\<in>set pre. within_any sh lon lat g = Inr False) \<and>
    within_any sh lon lat f = Inr True \<longrightarrow>
      find_area sh lon lat geojson = area_names f) \<and>
   (getitem geojson ''features'' = Inr fl \<and> iterate fl = Inr fs \<and>
    (\<forall>g\<in>set fs. within_any sh lon lat g = Inr False) \<longrightarrow>
      find_area sh lon lat geojson = Inr (JNull, JNull, JNull, automated)) \<and>
   (getitem f ''properties'' = Inr props \<and> getitem props ''NAME_0'' = Inr (JStr n) \<and>
    getitem props ''NAME_1'' = Inr state \<and> getitem props ''NAME_3'' = Inr county \<longrightarrow>
      area_names f =
        Inr (JStr (case map_of nation_dict n of None \<Rightarrow> n | Some t \<Rightarrow> t),
             state, county, automated)) \<and>
   map_of nation_dict = [''Germany'' \<mapsto> ''Deutschland''] \<and>
   automated = ''automated'' \<and>
   find_area shapely_model (JNum 5) (JNum 5) catalog =
     Inr (JStr ''Deutschland'', JStr ''Bavaria'', JStr ''Munich'', ''automated'') \<and>
   find_area shapely_model (JNum 50) (JNum 50) catalog =
     Inr (JNull, JNull, JNull, ''automated'')"
proof (intro conjI impI)
  show "find_area sh lon lat geojson = area_names f"
    if "getitem geojson ''features'' = Inr fl \<and> iterate fl = Inr (pre @ f # post) \<and>
      (\<forall>g\<in>set pre. within_any sh lon lat g = Inr False) \<and> within_any sh lon lat f = Inr True"
    using that by (intro find_area_first_match [of geojson fl pre f post]) simp_all
  show "find_area sh lon lat geojson = Inr (JNull, JNull, JNull, automated)"
    if "getitem geojson ''features'' = Inr fl \<and> iterate fl = Inr fs \<and>
      (\<forall>g\<in>set fs. within_any sh lon lat g = Inr False)"
    using that by (intro find_area_no_match [of geojson fl fs]) simp_all
  show "area_names f =
        Inr (JStr (case map_of nation_dict n of None \<Rightarrow> n | Some t \<Rightarrow> t),
             state, county, automated)"
    if "getitem f ''properties'' = Inr props \<and> getitem props ''NAME_0'' = Inr (JStr n) \<and>
      getitem props ''NAME_1'' = Inr state \<and> getitem props ''NAME_3'' = Inr county"
    using that by (intro area_names_translated [of f props]) simp_all
  show "map_of nation_dict = [''Germany'' \<mapsto> ''Deutschland'']"
    by (simp add: nation_dict_def)
  show "automated = ''automated''"
    by (simp add: automated_def)
  show "find_area shapely_model (JNum 5) (JNum 5) catalog =
     Inr (JStr ''Deutschland'', JStr ''Bavaria'', JStr ''Munich'', ''automated'')"
    by (simp add: resolver_eval automated_def)
  show "find_area shapely_model (JNum 50) (JNum 50) catalog =
     Inr (JNull, JNull, JNull, ''automated'')"
    by (simp add: resolver_eval automated_def)
qed


theorem find_area_first_containing_feature_witness:
  "within_any shapely_model (JNum 5) (JNum 5)
     (feature_of (JList [far_square]) ''France'' ''Bretagne'' ''Brest'') = Inr False \<and>
   within_any shapely_model (JNum 5) (JNum 5)
     (feature_of (JList [square]) ''Germany'' ''Bavaria'' ''Munich'') = Inr True \<and>
   find_area shapely_model (JNum 5) (JNum 5) two_features =
     Inr (JStr ''Deutschland'', JStr ''Bavaria'', JStr ''Munich'', automated) \<and>
   within_any shapely_model (JNum 50) (JNum 50)
     (feature_of (JList [far_square]) ''France'' ''Bretagne'' ''Brest'') = Inr False \<and>
   within_any shapely_model (JNum 50) (JNum 50)
     (feature_of (JList [square]) ''Germany'' ''Bavaria'' ''Munich'') = Inr False \<and>
   find_area shapely_model (JNum 50) (JNum 50) two_features =
     Inr (JNull, JNull, JNull, automated)"
proof -
  let ?far = "feature_of (JList [far_square]) ''France'' ''Bretagne'' ''Brest''"
  let ?near = "feature_of (JList [square]) ''Germany'' ''Bavaria'' ''Munich''"
  have features: "getitem two_features ''features'' = Inr (JList [?far, ?near])"
    by (simp add: two_features_def getitem_def)
  have it: "iterate (JList [?far, ?near]) = Inr ([?far] @ ?near # [])"
    by (simp add: iterate_def)
  have w1: "within_any shapely_model (JNum 5) (JNum 5) ?far = Inr False"
    by (simp add: resolver_eval)
  have w2: "within_any shapely_model (JNum 5) (JNum 5) ?near = Inr True"
    by (simp add: resolver_eval)
  have w3: "within_any shapely_model (JNum 50) (JNum 50) ?far = Inr False"
    by (simp add: resolver_eval)
  have w4: "within_any shapely_model (JNum 50) (JNum 50) ?near = Inr False"
    by (simp add: resolver_eval)
  have props: "getitem ?near ''properties'' =
      Inr (JDict [(''NAME_0'', JStr ''Germany''), (''NAME_1'', JStr ''Bavaria''),
                  (''NAME_3'', JStr ''Munich'')])"
    by (simp add: feature_of_def getitem_def)
  have hit: "find_area shapely_model (JNum 5) (JNum 5) two_features =
      Inr (JStr ''Deutschland'', JStr ''Bavaria'', JStr ''Munich'', automated)"
    using find_area_first_containing_feature [where geojson = two_features
        and fl = "JList [?far, ?near]" and pre = "[?far]" and f = ?near and post = "[]"
        and sh = shapely_model and lon = "JNum 5" and lat = "JNum 5"
        and props = "JDict [(''NAME_0'', JStr ''Germany''), (''NAME_1'', JStr ''Bavaria''),
                  (''NAME_3'', JStr ''Munich'')]"
        and n = "''Germany''" and state = "JStr ''Bavaria''" and county = "JStr ''Munich''"]
      features it w1 w2 props
    by (simp add: getitem_def)
  have miss: "find_area shapely_model (JNum 50) (JNum 50) two_features =
      Inr (JNull, JNull, JNull, automated)"
    using find_area_first_containing_feature [where geojson = two_features
        and fl = "JList [?far, ?near]" and fs = "[?far, ?near]"
        and sh = shapely_model and lon = "JNum 50" and lat = "JNum 50"]
      features w3 w4
    by (simp add: iterate_def)
  show ?thesis
    using w1 w2 w3 w4 hit miss by simp
qed

section \<open>What the lookup does with a malformed input\<close>

lemma check_not_a_list:
  "(\<forall>l. polygons \<noteq> JList l) \<Longrightarrow> check_in_polygons sh lon lat polygons = Inr False"
  by (subst check_in_polygons.simps) (cases polygons; simp)

lemma check_empty: "check_in_polygons sh lon lat (JList []) = Inr False"
  by (subst check_in_polygons.simps) simp

lemma check_element_not_a_list:
  "(\<forall>l. polygon \<noteq> JList l) \<Longrightarrow>
     check_in_polygons sh lon lat (JList (polygon # rest)) = Inr False"
  by (subst check_in_polygons.simps) (cases polygon; simp)

lemma check_first_not_a_list:
  "(\<forall>l. first \<noteq> JList l) \<Longrightarrow>
     check_in_polygons sh lon lat (JList (JList (first # others) # rest)) = Inr False"
  by (subst check_in_polygons.simps) (cases first; simp)

text \<open>
  C6, as the code has it: the containment test answers "not contained" where a value that
  is not a list stands where it expects a list (the geometry itself, its first element,
  or the first element of that one), and for the empty list; when every feature is
  answered that way the lookup returns the three nulls and the tag. Nothing catches an
  exception: when the test of a feature raises, as the geometry library does for a
  coordinate that it cannot convert to a number, and no earlier feature contains the
  point, the lookup ends with that exception.
\<close>

theorem malformed_input_degrades_or_raises:
  "((\<forall>l. polygons \<noteq> JList l) \<longrightarrow> check_in_polygons sh lon lat polygons = Inr False) \<and>
   check_in_polygons sh lon lat (JList []) = Inr False \<and>
   ((\<forall>l. polygon \<noteq> JList l) \<longrightarrow>
      check_in_polygons sh lon lat (JList (polygon # rest)) = Inr False) \<and>
   ((\<forall>l. first \<noteq> JList l) \<longrightarrow>
      check_in_polygons sh lon lat (JList (JList (first # others) # rest)) = Inr False) \<and>
   (getitem geojson ''features'' = Inr fl \<and> iterate fl = Inr fs \<and>
    (\<forall>g\<in>set fs. within_any sh lon lat g = Inr False) \<longrightarrow>
      find_area sh lon lat geojson = Inr (JNull, JNull, JNull, automated)) \<and>
   (getitem geojson ''features'' = Inr fl \<and> iterate fl = Inr (pre @ f # post) \<and>
    (\<forall>g\<in>set pre. within_any sh lon lat g = Inr False) \<and>
    within_any sh lon lat f = Inl e \<longrightarrow>
      find_area sh lon lat geojson = Inl e)"
proof (intro conjI impI)
  show "check_in_polygons sh lon lat polygons = Inr False" if "\<forall>l. polygons \<noteq> JList l"
    using that by (rule check_not_a_list)
  show "check_in_polygons sh lon lat (JList []) = Inr False"
    by (rule check_empty)
  show "check_in_polygons sh lon lat (JList (polygon # rest)) = Inr False"
    if "\<forall>l. polygon \<noteq> JList l"
    using that by (rule check_element_not_a_list)
  show "check_in_polygons sh lon lat (JList (JList (first # others) # rest)) = Inr False"
    if "\<forall>l. first \<noteq> JList l"
    using that by (rule check_first_not_a_list)
  show "find_area sh lon lat geojson = Inr (JNull, JNull, JNull, automated)"
    if "getitem geojson ''features'' = Inr fl \<and> iterate fl = Inr fs \<and>
      (\<forall>g\<in>set fs. within_any sh lon lat g = Inr False)"
    using that by (intro find_area_no_match [of geojson fl fs]) simp_all
  show "find_area sh lon lat geojson = Inl e"
    if "getitem geojson ''features'' = Inr fl \<and> iterate fl = Inr (pre @ f # post) \<and>
      (\<forall>g\<in>set pre. within_any sh lon lat g = Inr False) \<and> within_any sh lon lat f = Inl e"
    using that by (intro find_area_raise [of geojson fl pre f post]) simp_all
qed

theorem malformed_input_degrades_or_raises_witness:
  "check_in_polygons shapely_model (JNum 5) (JNum 5) (JNum 7) = Inr False \<and>
   check_in_polygons shapely_model (JNum 5) (JNum 5) (JList [JNum 0, JNum 10]) = Inr False \<and>
   check_in_polygons shapely_model (JNum 5) (JNum 5) (JList [JList [JNum 0, JNum 10], JNum 10]) = Inr False \<and>
   find_area shapely_model (JNum 5) (JNum 5) flat_features = Inr (JNull, JNull, JNull, automated) \<and>
   within_any shapely_model (JNum 5) (JNum 5)
     (feature_of (JList [null_ring]) ''Germany'' ''Bavaria'' ''Munich'') = Inl TypeError \<and>
   find_area shapely_model (JNum 5) (JNum 5) odd_features = Inl TypeError"
proof -
  let ?a = "feature_of (JNum 7) ''France'' ''Bretagne'' ''Brest''"
  let ?b = "feature_of (JList [JNum 0, JNum 10]) ''Germany'' ''Bavaria'' ''Munich''"
  let ?c = "feature_of (JList [null_ring]) ''Germany'' ''Bavaria'' ''Munich''"
  have wa: "within_any shapely_model (JNum 5) (JNum 5) ?a = Inr False"
    by (simp add: resolver_eval)
  have wb: "within_any shapely_model (JNum 5) (JNum 5) ?b = Inr False"
    by (simp add: resolver_eval)
  have wc: "within_any shapely_model (JNum 5) (JNum 5) ?c = Inl TypeError"
    by (simp add: resolver_eval)
  have flat: "getitem flat_features ''features'' = Inr (JList [?a, ?b])"
    by (simp add: flat_features_def getitem_def)
  have odd: "getitem odd_features ''features'' = Inr (JList [?a, ?c])"
    by (simp add: odd_features_def getitem_def)
  have it: "iterate (JList [?a, ?c]) = Inr ([?a] @ ?c # [])"
    by (simp add: iterate_def)
  have shape: "check_in_polygons shapely_model (JNum 5) (JNum 5) (JNum 7) = Inr False \<and>
      check_in_polygons shapely_model (JNum 5) (JNum 5) (JList [JNum 0, JNum 10]) = Inr False \<and>
      check_in_polygons shapely_model (JNum 5) (JNum 5) (JList [JList [JNum 0, JNum 10], JNum 10]) = Inr False \<and>
      find_area shapely_model (JNum 5) (JNum 5) flat_features = Inr (JNull, JNull, JNull, automated)"
    using malformed_input_degrades_or_raises [where sh = shapely_model and lon = "JNum 5"
        and lat = "JNum 5" and polygons = "JNum 7" and polygon = "JNum 0" and rest = "[JNum 10]"
        and first = "JNum 0" and others = "[JNum 10]" and geojson = flat_features
        and fl = "JList [?a, ?b]" and fs = "[?a, ?b]"]
      flat wa wb
    by (simp add: iterate_def)
  have raised: "find_area shapely_model (JNum 5) (JNum 5) odd_features = Inl TypeError"
    using malformed_input_degrades_or_raises [where sh = shapely_model and lon = "JNum 5"
        and lat = "JNum 5" and geojson = odd_features and fl = "JList [?a, ?c]"
        and pre = "[?a]" and f = ?c and post = "[]" and e = TypeError]
      odd it wa wc
    by simp
  show ?thesis
    using shape raised wc by simp
qed

text \<open>
  The claim as stated fails where an exception is raised: for a point without a longitude
  and for a ring with a null coordinate the geometry library raises, and for an empty list
  where a ring is expected \<^verbatim>\<open>polygon[0]\<close> raises; the lookup does not return the tuple of
  nulls then.
\<close>

theorem malformed_input_raises:
  "find_area shapely_model JNull (JNum 5) catalog = Inl TypeError \<and>
   find_area shapely_model (JNum 5) (JNum 5) odd_features = Inl TypeError \<and>
   check_in_polygons shapely_model (JNum 5) (JNum 5) (JList [JList []]) = Inl IndexError"
  by (simp add: resolver_eval)

end
